theory Spec2Isabelle
  imports Main
begin

section \<open>JavaScript values and strings\<close>

text \<open>
  A JavaScript string is a sequence of UTF-16 code units; a code unit is modelled as a
  natural number. The two line separators U+2028 and U+2029, which the regular
  expressions of the program treat as line terminators, are single code units.
\<close>

type_synonym jsstring = "nat list"

definition js :: "string \<Rightarrow> jsstring" where
  "js s = map of_char s"

text \<open>
  The values the program handles. \<open>Num i\<close> is the Number whose value is the integer
  \<open>i\<close>: the only Numbers of the program are the results of \<open>parseInt\<close>, which are
  integers, infinite or \<open>NaN\<close>. Negative zero is identified with \<open>Num 0\<close>.
  \<open>DateObj d\<close> is the object \<open>new Date(d)\<close>.
\<close>

datatype js_value =
    Undefined
  | Null
  | Str jsstring
  | Num int
  | NaN
  | PosInfinity
  | NegInfinity
  | DateObj jsstring

fun truthy :: "js_value \<Rightarrow> bool" where
  "truthy Undefined = False"
| "truthy Null = False"
| "truthy (Str s) = (s \<noteq> [])"
| "truthy (Num i) = (i \<noteq> 0)"
| "truthy NaN = False"
| "truthy PosInfinity = True"
| "truthy NegInfinity = True"
| "truthy (DateObj d) = True"

text \<open>\<open>a || b\<close>\<close>

definition js_or :: "js_value \<Rightarrow> js_value \<Rightarrow> js_value" where
  "js_or a b = (if truthy a then a else b)"

section \<open>Regular expressions\<close>

text \<open>
  The fragment of JavaScript regular expressions the program uses: a literal code unit,
  a greedy star of a literal (\<open>c*\<close>), and the capturing group \<open>(.+?)\<close>, a lazy
  non-empty run of characters other than line terminators. A pattern is the sequence of
  its items. Every pattern of the program has exactly one group, and \<open>rmatch\<close> returns
  what that group captured.
\<close>

datatype rx = Lit nat | Star nat | DotPlusLazyGroup

definition line_terminator :: "nat \<Rightarrow> bool" where
  "line_terminator c = (c = 10 \<or> c = 13 \<or> c = 8232 \<or> c = 8233)"

text \<open>Greedy: take the next \<open>c\<close> if the rest can still match, give it back otherwise.\<close>

fun star_greedy :: "nat \<Rightarrow> (jsstring \<Rightarrow> 'a option) \<Rightarrow> jsstring \<Rightarrow> 'a option" where
  "star_greedy c k [] = k []"
| "star_greedy c k (x # xs) =
     (if x = c then (case star_greedy c k xs of Some r \<Rightarrow> Some r | None \<Rightarrow> k (x # xs))
      else k (x # xs))"

text \<open>Lazy: stop as soon as the rest of the pattern matches, take one more character otherwise.\<close>

fun dots_lazy :: "(jsstring \<Rightarrow> 'a option) \<Rightarrow> jsstring \<Rightarrow> jsstring \<Rightarrow> jsstring option" where
  "dots_lazy k acc s =
     (case k s of
        Some _ \<Rightarrow> Some acc
      | None \<Rightarrow>
          (case s of
             [] \<Rightarrow> None
           | x # xs \<Rightarrow> if line_terminator x then None else dots_lazy k (acc @ [x]) xs))"

primrec rmatch :: "rx list \<Rightarrow> jsstring \<Rightarrow> jsstring option" where
  "rmatch [] s = Some []"
| "rmatch (p # ps) s =
     (case p of
        Lit c \<Rightarrow> (case s of [] \<Rightarrow> None | x # xs \<Rightarrow> if x = c then rmatch ps xs else None)
      | Star c \<Rightarrow> star_greedy c (rmatch ps) s
      | DotPlusLazyGroup \<Rightarrow>
          (case s of
             [] \<Rightarrow> None
           | x # xs \<Rightarrow> if line_terminator x then None else dots_lazy (rmatch ps) [x] xs))"

text \<open>
  \<open>r.exec(text)[1]\<close> for a pattern whose \<open>lastIndex\<close> is 0: the leftmost position at
  which the pattern matches decides; \<open>None\<close> is the \<open>null\<close> of no match.
\<close>

fun regex_exec :: "rx list \<Rightarrow> jsstring \<Rightarrow> jsstring option" where
  "regex_exec r [] = rmatch r []"
| "regex_exec r (x # xs) =
     (case rmatch r (x # xs) of Some c \<Rightarrow> Some c | None \<Rightarrow> regex_exec r xs)"

definition lits :: "string \<Rightarrow> rx list" where
  "lits s = map (\<lambda>c. Lit (of_char c)) s"

text \<open>\<^verbatim>\<open>/\nRequestUUID = (.+?)\n/g\<close>\<close>

definition uuid_rx :: "rx list" where
  "uuid_rx = Lit 10 # lits ''RequestUUID = '' @ [DotPlusLazyGroup, Lit 10]"

text \<open>\<^verbatim>\<open>/\n *KEY(.+?)\n/\<close>, where \<open>KEY\<close> is the field's name with its colon and space.\<close>

definition field_rx :: "string \<Rightarrow> rx list" where
  "field_rx key = Lit 10 # Star 32 # lits key @ [DotPlusLazyGroup, Lit 10]"

section \<open>Number.parseInt(s, 10)\<close>

definition str_whitespace :: "nat \<Rightarrow> bool" where
  "str_whitespace c =
     (c = 9 \<or> c = 10 \<or> c = 11 \<or> c = 12 \<or> c = 13 \<or> c = 32 \<or> c = 160 \<or> c = 5760
      \<or> (8192 \<le> c \<and> c \<le> 8202) \<or> c = 8232 \<or> c = 8233 \<or> c = 8239 \<or> c = 8287
      \<or> c = 12288 \<or> c = 65279)"

definition is_digit :: "nat \<Rightarrow> bool" where
  "is_digit c = (48 \<le> c \<and> c \<le> 57)"

definition digits_value :: "jsstring \<Rightarrow> int" where
  "digits_value z = foldl (\<lambda>a d. 10 * a + (int d - 48)) 0 z"

text \<open>
  The Number of a mathematical integer. Every integer of magnitude at most \<open>2 ^ 53\<close> is a
  double. A larger one is rounded to the nearest double, that is to 53 significant bits,
  a tie going to the even one, and to infinity from \<open>2 ^ 1024\<close> on. (For more than 20
  significant digits the standard lets \<open>parseInt\<close> approximate; the engine of Node rounds
  as here.)
\<close>

fun bit_length :: "int \<Rightarrow> nat" where
  "bit_length a = (if a \<le> 0 then 0 else Suc (bit_length (a div 2)))"

declare bit_length.simps [simp del]

definition round_to_double :: "int \<Rightarrow> js_value" where
  "round_to_double i =
     (let a = \<bar>i\<bar>;
          e = bit_length a - 53;
          q = a div 2 ^ e;
          r = a mod 2 ^ e;
          q' = (if 2 * r > 2 ^ e \<or> (2 * r = 2 ^ e \<and> odd q) then q + 1 else q);
          m = q' * 2 ^ e
      in if m \<ge> 2 ^ 1024 then (if i < 0 then NegInfinity else PosInfinity)
         else Num (if i < 0 then - m else m))"

definition number_of_int :: "int \<Rightarrow> js_value" where
  "number_of_int i = (if \<bar>i\<bar> \<le> 2 ^ 53 then Num i else round_to_double i)"

definition parseInt10 :: "jsstring \<Rightarrow> js_value" where
  "parseInt10 inputString =
     (let S = dropWhile str_whitespace inputString;
          sign = (case S of c # r \<Rightarrow> if c = 45 then - 1 else 1 | [] \<Rightarrow> (1::int));
          S' = (case S of c # r \<Rightarrow> if c = 43 \<or> c = 45 then r else S | [] \<Rightarrow> S);
          Z = takeWhile is_digit S'
      in if Z = [] then NaN else number_of_int (sign * digits_value Z))"

section \<open>Errors\<close>

text \<open>
  Every error of the program is an \<open>Error\<close> built from a message. The constructors name
  the place that builds it:
  \<^item> \<open>ConfigurationError\<close>: the throws of \<open>getAuthInfo\<close>;
  \<^item> \<open>ExecaError\<close>: the rejection of an \<open>execa\<close> call, with its message;
  \<^item> \<open>SigningError\<close>: the catch handler of \<open>signPackage\<close>, with the interpolated path
    and the message it wraps;
  \<^item> \<open>SubmissionParseError\<close>: \<open>Failed to find request UUID in output\<close>, thrown inside
    the try block of \<open>startNotarizingPackage\<close>;
  \<^item> \<open>SubmissionError\<close>: the catch handler of \<open>startNotarizingPackage\<close>;
  \<^item> \<open>NotarizationRejected a b c\<close>: the template of \<open>waitForNotarize\<close> with
    \<open>Status Code: ${a}\<close>, \<open>Message: ${b}\<close> and \<open>Logs: ${c}\<close>;
  \<^item> \<open>UnrecognizedStatus s\<close>: \<open>Unrecognized notarization status: "${s}"\<close>;
  \<^item> \<open>ENOENT\<close>: \<open>fs.renameSync\<close> on a path that does not exist.
\<close>

datatype error =
    ConfigurationError jsstring
  | ExecaError jsstring
  | SigningError js_value jsstring
  | SubmissionParseError jsstring
  | SubmissionError jsstring
  | NotarizationRejected js_value js_value js_value
  | UnrecognizedStatus js_value
  | ENOENT jsstring

text \<open>
  \<open>error.message\<close>, for the errors that carry their message as a string. No handler of
  the program reads the message of the others.
\<close>

fun message :: "error \<Rightarrow> jsstring" where
  "message (ConfigurationError m) = m"
| "message (ExecaError m) = m"
| "message (SubmissionParseError m) = m"
| "message (SubmissionError m) = m"

text \<open>The outcome of \<open>await execa(...)\<close>: rejected with a message, or resolved with \<open>stdout\<close>.\<close>

type_synonym exec_result = "jsstring + jsstring"

section \<open>Credentials\<close>

text \<open>
  \<open>process.env\<close>: a variable is a string or is not set. Only the variables that
  \<open>getAuthInfo\<close> reads are kept.
\<close>

record environment =
  APPLE_ID :: "jsstring option"
  APPLE_ID_PASSWORD :: "jsstring option"
  APPLE_TEAM_ID :: "jsstring option"
  API_KEY_ID :: "jsstring option"
  API_KEY_ISSUER_ID :: "jsstring option"
  TEAM_SHORT_NAME :: "jsstring option"
  PSC_NAME :: "jsstring option"

definition getenv :: "jsstring option \<Rightarrow> js_value" where
  "getenv v = (case v of None \<Rightarrow> Undefined | Some s \<Rightarrow> Str s)"

text \<open>
  The object \<open>getAuthInfo\<close> returns and \<open>getAuthorizingArgs\<close> reads. Reading a property
  that an object does not have gives \<open>undefined\<close>, so one record serves both files:
  \<open>src/index.js\<close> never sets \<open>appleTeamId\<close>, \<open>src/unnamed/part_000\<close> never sets
  \<open>productSignCertificateName\<close>.
\<close>

record auth_info =
  appleId :: js_value
  appleIdPassword :: js_value
  appleTeamId :: js_value
  appleApiKey :: js_value
  appleApiIssuer :: js_value
  teamShortName :: js_value
  productSignCertificateName :: js_value

definition msg_missing :: jsstring where
  "msg_missing = js (''Authentication environment variables for notarization are missing. Either APPLE_ID and '' @
     ''APPLE_ID_PASSWORD, or API_KEY_ID and API_KEY_ISSUER_ID must be defined.'')"

definition msg_both :: jsstring where
  "msg_both = js ''Should only provide either Apple ID or API key environment variables.''"

definition msg_api_pair :: jsstring where
  "msg_api_pair = js ''One of API_KEY_ID and API_KEY_ISSUER_ID environment variables is missing for notarization.''"

text \<open>\<open>getAuthInfo\<close> of \<open>src/index.js\<close> (the variant that signs the package).\<close>

definition getAuthInfo :: "environment \<Rightarrow> error + auth_info" where
  "getAuthInfo env =
     (let appleId = getenv (APPLE_ID env);
          appleIdPassword = getenv (APPLE_ID_PASSWORD env);
          appleApiKey = getenv (API_KEY_ID env);
          appleApiIssuer = getenv (API_KEY_ISSUER_ID env);
          teamShortName = getenv (TEAM_SHORT_NAME env);
          productSignCertificateName = getenv (PSC_NAME env)
      in if \<not> truthy productSignCertificateName then
           Inl (ConfigurationError (js ''PSC_NAME is required for product signing.''))
         else if \<not> truthy appleId \<and> \<not> truthy appleIdPassword \<and> \<not> truthy appleApiKey
                 \<and> \<not> truthy appleApiIssuer then
           Inl (ConfigurationError msg_missing)
         else if (truthy appleId \<or> truthy appleIdPassword)
                 \<and> (truthy appleApiKey \<or> truthy appleApiIssuer) then
           Inl (ConfigurationError msg_both)
         else if (truthy appleId \<and> \<not> truthy appleIdPassword)
                 \<or> (\<not> truthy appleId \<and> truthy appleIdPassword) then
           Inl (ConfigurationError
             (js ''One of APPLE_ID and APPLE_ID_PASSWORD environment variables is missing for notarization.''))
         else if (truthy appleApiKey \<and> \<not> truthy appleApiIssuer)
                 \<or> (\<not> truthy appleApiKey \<and> truthy appleApiIssuer) then
           Inl (ConfigurationError msg_api_pair)
         else
           Inr \<lparr>appleId = appleId, appleIdPassword = appleIdPassword, appleTeamId = Undefined,
                appleApiKey = appleApiKey, appleApiIssuer = appleApiIssuer,
                teamShortName = teamShortName,
                productSignCertificateName = productSignCertificateName\<rparr>)"

text \<open>\<open>getAuthInfo\<close> of \<open>src/unnamed/part_000\<close> (the variant that does not sign).\<close>

definition getAuthInfo_u :: "environment \<Rightarrow> error + auth_info" where
  "getAuthInfo_u env =
     (let appleId = getenv (APPLE_ID env);
          appleIdPassword = getenv (APPLE_ID_PASSWORD env);
          appleTeamId = getenv (APPLE_TEAM_ID env);
          appleApiKey = getenv (API_KEY_ID env);
          appleApiIssuer = getenv (API_KEY_ISSUER_ID env);
          teamShortName = getenv (TEAM_SHORT_NAME env)
      in if \<not> truthy appleId \<and> \<not> truthy appleIdPassword \<and> \<not> truthy appleApiKey
            \<and> \<not> truthy appleApiIssuer then
           Inl (ConfigurationError msg_missing)
         else if (truthy appleId \<or> truthy appleIdPassword \<or> truthy appleTeamId)
                 \<and> (truthy appleApiKey \<or> truthy appleApiIssuer) then
           Inl (ConfigurationError msg_both)
         else if \<not> truthy appleId \<or> \<not> truthy appleIdPassword \<or> \<not> truthy appleTeamId then
           Inl (ConfigurationError
             (js ''One of APPLE_ID, APPLE_ID_PASSWORD, and APPLE_TEAM_ID environment variables is missing for notarization.''))
         else if (truthy appleApiKey \<and> \<not> truthy appleApiIssuer)
                 \<or> (\<not> truthy appleApiKey \<and> truthy appleApiIssuer) then
           Inl (ConfigurationError msg_api_pair)
         else
           Inr \<lparr>appleId = appleId, appleIdPassword = appleIdPassword, appleTeamId = appleTeamId,
                appleApiKey = appleApiKey, appleApiIssuer = appleApiIssuer,
                teamShortName = teamShortName, productSignCertificateName = Undefined\<rparr>)"

text \<open>\<open>const {productSignCertificateName, ...notarizeOptions} = authInfo\<close>\<close>

definition notarizeOptions_of :: "auth_info \<Rightarrow> auth_info" where
  "notarizeOptions_of authInfo = authInfo\<lparr>productSignCertificateName := Undefined\<rparr>"

section \<open>Authorization arguments\<close>

text \<open>\<open>getAuthorizingArgs\<close> of \<open>src/index.js\<close>.\<close>

definition getAuthorizingArgs :: "auth_info \<Rightarrow> js_value list" where
  "getAuthorizingArgs notarizeOptions =
     (if truthy (appleId notarizeOptions) then
        [Str (js ''--username''), appleId notarizeOptions,
         Str (js ''--password''), appleIdPassword notarizeOptions]
      else
        [Str (js ''--apiKey''), appleApiKey notarizeOptions,
         Str (js ''--apiIssuer''), appleApiIssuer notarizeOptions])"

text \<open>\<open>getAuthorizingArgs\<close> of \<open>src/unnamed/part_000\<close>.\<close>

definition getAuthorizingArgs_u :: "auth_info \<Rightarrow> js_value list" where
  "getAuthorizingArgs_u notarizeOptions =
     (if truthy (appleId notarizeOptions) then
        [Str (js ''--username''), appleId notarizeOptions,
         Str (js ''--password''), appleIdPassword notarizeOptions,
         Str (js ''--asc-provider''), appleTeamId notarizeOptions]
      else
        [Str (js ''--apiKey''), appleApiKey notarizeOptions,
         Str (js ''--apiIssuer''), appleApiIssuer notarizeOptions])"

section \<open>Submission\<close>

text \<open>
  The argument array of the upload call, which is the same expression in both files but
  for the \<open>getAuthorizingArgs\<close> it spreads.
\<close>

definition notarize_app_args ::
  "(auth_info \<Rightarrow> js_value list) \<Rightarrow> js_value \<Rightarrow> js_value \<Rightarrow> auth_info \<Rightarrow> js_value list" where
  "notarize_app_args authArgs pkgPath appId notarizeOpts =
     [Str (js ''altool''), Str (js ''--notarize-app''), Str (js ''--primary-bundle-id''), appId,
      Str (js ''--file''), pkgPath]
     @ authArgs notarizeOpts
     @ (if truthy (teamShortName notarizeOpts)
        then [Str (js ''-itc_provider''), teamShortName notarizeOpts] else [])"

text \<open>
  The \<open>try\<close> block of \<open>startNotarizingPackage\<close>. \<open>execa\<close> is the outcome of running a
  command with an argument array. The block ends with the identifier, or with what it
  throws: the rejection of \<open>execa\<close>, or the error of a missing identifier.
\<close>

definition submit_try ::
  "(auth_info \<Rightarrow> js_value list) \<Rightarrow> (jsstring \<Rightarrow> js_value list \<Rightarrow> exec_result)
     \<Rightarrow> js_value \<Rightarrow> js_value \<Rightarrow> auth_info \<Rightarrow> error + jsstring" where
  "submit_try authArgs execa pkgPath appId notarizeOpts =
     (case execa (js ''xcrun'') (notarize_app_args authArgs pkgPath appId notarizeOpts) of
        Inl m \<Rightarrow> Inl (ExecaError m)
      | Inr stdout \<Rightarrow>
          (case regex_exec uuid_rx stdout of
             None \<Rightarrow>
               Inl (SubmissionParseError
                 (js ''Failed to find request UUID in output:\<newline>\<newline>'' @ stdout))
           | Some uuidMatch1 \<Rightarrow> Inr uuidMatch1))"

text \<open>
  The body of \<open>startNotarizingPackage\<close>: the \<open>try\<close> block and its \<open>catch\<close> handler, which
  receives whatever the block throws.
\<close>

definition submit ::
  "(auth_info \<Rightarrow> js_value list) \<Rightarrow> (jsstring \<Rightarrow> js_value list \<Rightarrow> exec_result)
     \<Rightarrow> js_value \<Rightarrow> js_value \<Rightarrow> auth_info \<Rightarrow> error + jsstring" where
  "submit authArgs execa pkgPath appId notarizeOpts =
     (case submit_try authArgs execa pkgPath appId notarizeOpts of
        Inl e \<Rightarrow>
          Inl (SubmissionError
            (js ''Failed to upload app to Apple's notarization servers\<newline>\<newline>'' @ message e))
      | Inr u \<Rightarrow> Inr u)"

definition startNotarizingPackage ::
  "(jsstring \<Rightarrow> js_value list \<Rightarrow> exec_result) \<Rightarrow> js_value \<Rightarrow> js_value \<Rightarrow> auth_info
     \<Rightarrow> error + jsstring" where
  "startNotarizingPackage = submit getAuthorizingArgs"

definition startNotarizingPackage_u ::
  "(jsstring \<Rightarrow> js_value list \<Rightarrow> exec_result) \<Rightarrow> js_value \<Rightarrow> js_value \<Rightarrow> auth_info
     \<Rightarrow> error + jsstring" where
  "startNotarizingPackage_u = submit getAuthorizingArgs_u"

section \<open>Response parser\<close>

text \<open>
  The object \<open>out\<close> of \<open>parseNotarizationInfo\<close>. A property that was never set reads as
  \<open>undefined\<close>; the parser never stores \<open>undefined\<close> itself, so \<open>Undefined\<close> in a field
  means that the object has no such property.
\<close>

record notarization_info =
  uuid :: js_value
  date :: js_value
  status :: js_value
  logFileUrl :: js_value
  statusCode :: js_value
  statusMessage :: js_value

text \<open>
  \<open>matchToProperty(key, r, modifier)\<close>, as the value that \<open>out[key]\<close> has afterwards.
  Each key is written by one call only.
\<close>

definition matchToProperty ::
  "jsstring \<Rightarrow> rx list \<Rightarrow> (jsstring \<Rightarrow> js_value) option \<Rightarrow> js_value" where
  "matchToProperty text r modifier =
     (case regex_exec r text of
        None \<Rightarrow> Undefined
      | Some exec1 \<Rightarrow> (case modifier of None \<Rightarrow> Str exec1 | Some f \<Rightarrow> f exec1))"

definition parseNotarizationInfo :: "jsstring \<Rightarrow> notarization_info" where
  "parseNotarizationInfo text =
     (let out = \<lparr>
            uuid = matchToProperty text (field_rx ''RequestUUID: '') None,
            date = matchToProperty text (field_rx ''Date: '') (Some DateObj),
            status = matchToProperty text (field_rx ''Status: '') None,
            logFileUrl = matchToProperty text (field_rx ''LogFileURL: '') None,
            statusCode = matchToProperty text (field_rx ''Status Code: '') (Some parseInt10),
            statusMessage = matchToProperty text (field_rx ''Status Message: '') None\<rparr>
      in if logFileUrl out = Str (js ''(null)'') then out\<lparr>logFileUrl := Null\<rparr> else out)"

section \<open>Status poller\<close>

text \<open>
  What the poller does to the outside: it runs a command, or it waits (milliseconds).
\<close>

datatype event = Exec jsstring "js_value list" | Delay nat

definition notarization_info_args ::
  "(auth_info \<Rightarrow> js_value list) \<Rightarrow> jsstring \<Rightarrow> auth_info \<Rightarrow> js_value list" where
  "notarization_info_args authArgs requestUuid notarizeOpts =
     [Str (js ''altool''), Str (js ''--notarization-info''), Str requestUuid] @ authArgs notarizeOpts"

text \<open>The event of one status query.\<close>

abbreviation status_query ::
  "(auth_info \<Rightarrow> js_value list) \<Rightarrow> jsstring \<Rightarrow> auth_info \<Rightarrow> event" where
  "status_query authArgs requestUuid notarizeOpts \<equiv>
     Exec (js ''xcrun'') (notarization_info_args authArgs requestUuid notarizeOpts)"

text \<open>The two \<open>if\<close> statements that end \<open>waitForNotarize\<close>.\<close>

definition final_checks :: "notarization_info \<Rightarrow> error + unit" where
  "final_checks notarizationInfo =
     (if status notarizationInfo = Str (js ''invalid'') then
        Inl (NotarizationRejected
               (js_or (statusCode notarizationInfo) (Str (js ''No Code'')))
               (js_or (statusMessage notarizationInfo) (Str (js ''No Message'')))
               (logFileUrl notarizationInfo))
      else if status notarizationInfo \<noteq> Str (js ''success'') then
        Inl (UnrecognizedStatus (status notarizationInfo))
      else Inr ())"

text \<open>
  \<open>waitForNotarize\<close> of \<open>src/index.js\<close>. The status tool is a script: \<open>script n\<close> is
  the outcome of the query number \<open>n\<close>. The state is the number of queries made and the
  events so far. The function may poll forever, which is the value \<open>None\<close>. On
  \<open>in progress\<close> the recursive call is awaited and not returned: when it resolves, the
  caller goes on to its own two final checks.
\<close>

partial_function (option) waitForNotarize ::
  "(nat \<Rightarrow> exec_result) \<Rightarrow> jsstring \<Rightarrow> auth_info \<Rightarrow> nat \<Rightarrow> event list
     \<Rightarrow> ((error + unit) \<times> nat \<times> event list) option" where
  "waitForNotarize script requestUuid notarizeOpts n tr =
     (let tr1 = tr @ [Exec (js ''xcrun'')
                        (notarization_info_args getAuthorizingArgs requestUuid notarizeOpts)]
      in case script n of
           Inl m \<Rightarrow> waitForNotarize script requestUuid notarizeOpts (Suc n) (tr1 @ [Delay 30000])
         | Inr output \<Rightarrow>
             (let notarizationInfo = parseNotarizationInfo output
              in if status notarizationInfo = Str (js ''in progress'') then
                   Option.bind
                     (waitForNotarize script requestUuid notarizeOpts (Suc n) (tr1 @ [Delay 30000]))
                     (\<lambda>r. case fst r of
                            Inl e \<Rightarrow> Some (Inl e, snd r)
                          | Inr u \<Rightarrow> Some (final_checks notarizationInfo, snd r))
                 else Some (final_checks notarizationInfo, Suc n, tr1)))"

text \<open>
  \<open>waitForNotarize\<close> of \<open>src/unnamed/part_000\<close>: on \<open>in progress\<close> the recursive call is
  returned.
\<close>

partial_function (option) waitForNotarize_u ::
  "(nat \<Rightarrow> exec_result) \<Rightarrow> jsstring \<Rightarrow> auth_info \<Rightarrow> nat \<Rightarrow> event list
     \<Rightarrow> ((error + unit) \<times> nat \<times> event list) option" where
  "waitForNotarize_u script requestUuid notarizeOpts n tr =
     (let tr1 = tr @ [Exec (js ''xcrun'')
                        (notarization_info_args getAuthorizingArgs_u requestUuid notarizeOpts)]
      in case script n of
           Inl m \<Rightarrow> waitForNotarize_u script requestUuid notarizeOpts (Suc n) (tr1 @ [Delay 30000])
         | Inr output \<Rightarrow>
             (let notarizationInfo = parseNotarizationInfo output
              in if status notarizationInfo = Str (js ''in progress'') then
                   waitForNotarize_u script requestUuid notarizeOpts (Suc n) (tr1 @ [Delay 30000])
                 else Some (final_checks notarizationInfo, Suc n, tr1)))"

declare waitForNotarize.simps [code]
declare waitForNotarize_u.simps [code]

section \<open>Signing and the swap of the two files\<close>

text \<open>
  \<open>signPackage\<close> has one parameter, which it destructures:
  \<^verbatim>\<open>async ({productSignCertificateName, pkgPath, signedPath}) => ...\<close>.
  What it is called with is an object, or a string. Destructuring reads the three names as
  properties; a string has none of them, and a missing property reads as \<open>undefined\<close>.
\<close>

datatype js_arg = Object "(string \<times> js_value) list" | StringArg jsstring

definition get_property :: "js_arg \<Rightarrow> string \<Rightarrow> js_value" where
  "get_property a k =
     (case a of
        Object kvs \<Rightarrow> (case map_of kvs k of Some v \<Rightarrow> v | None \<Rightarrow> Undefined)
      | StringArg s \<Rightarrow> Undefined)"

definition productsign_args :: "js_arg \<Rightarrow> js_value list" where
  "productsign_args a =
     [Str (js ''--sign''), get_property a ''productSignCertificateName'', get_property a ''pkgPath'',
      get_property a ''signedPath'']"

text \<open>The files: a path has contents (bytes) or does not exist.\<close>

type_synonym files = "jsstring \<Rightarrow> nat list option"

text \<open>
  \<open>signPackage\<close>. Here \<open>execa\<close> also says what the command did to the files.
\<close>

definition signPackage ::
  "(jsstring \<Rightarrow> js_value list \<Rightarrow> files \<Rightarrow> exec_result \<times> files) \<Rightarrow> js_arg \<Rightarrow> files
     \<Rightarrow> (error + unit) \<times> files" where
  "signPackage execa a fs =
     (case execa (js ''productsign'') (productsign_args a) fs of
        (Inl m, fs') \<Rightarrow> (Inl (SigningError (get_property a ''pkgPath'') m), fs')
      | (Inr out, fs') \<Rightarrow> (Inr (), fs'))"

definition renameSync :: "jsstring \<Rightarrow> jsstring \<Rightarrow> files \<Rightarrow> error + files" where
  "renameSync oldPath newPath fs =
     (case fs oldPath of
        None \<Rightarrow> Inl (ENOENT oldPath)
      | Some b \<Rightarrow> Inr ((fs(oldPath := None))(newPath := Some b)))"

text \<open>
  The signing stage of \<open>module.exports\<close> in \<open>src/index.js\<close>, from \<open>path.parse(pkgPath)\<close>
  to the second \<open>fs.renameSync\<close>. \<open>path.parse\<close> (its \<open>dir\<close> and \<open>name\<close>) and
  \<open>path.resolve\<close> belong to the platform and are parameters. The call is
  \<^verbatim>\<open>signPackage(productSignCertificateName, pkgPath, signedPath)\<close>: three arguments for
  a function of one parameter, so the parameter is the certificate name, a string, and the
  other two arguments are dropped.
\<close>

definition sign_and_swap ::
  "(jsstring \<Rightarrow> js_value list \<Rightarrow> files \<Rightarrow> exec_result \<times> files)
     \<Rightarrow> (jsstring \<Rightarrow> jsstring \<times> jsstring) \<Rightarrow> (jsstring \<Rightarrow> jsstring \<Rightarrow> jsstring)
     \<Rightarrow> jsstring \<Rightarrow> jsstring \<Rightarrow> files \<Rightarrow> (error + unit) \<times> files" where
  "sign_and_swap execa path_parse path_resolve certificateName pkgPath fs =
     (let dir = fst (path_parse pkgPath);
          name = snd (path_parse pkgPath);
          signedPath = path_resolve dir (name @ js ''-signed.pkg'')
      in case signPackage execa (StringArg certificateName) fs of
           (Inl e, fs1) \<Rightarrow> (Inl e, fs1)
         | (Inr u, fs1) \<Rightarrow>
             (case renameSync pkgPath (path_resolve dir (name @ js ''-unsigned.pkg'')) fs1 of
                Inl e \<Rightarrow> (Inl e, fs1)
              | Inr fs2 \<Rightarrow>
                  (case renameSync signedPath pkgPath fs2 of
                     Inl e \<Rightarrow> (Inl e, fs2)
                   | Inr fs3 \<Rightarrow> (Inr (), fs3))))"

section \<open>Texts as lines\<close>

text \<open>
  \<open>text.split('\n')\<close> and its inverse. They are not part of the program: they state what
  the patterns of the program, which are anchored at newlines, read from a text.
\<close>

primrec split_lines :: "jsstring \<Rightarrow> jsstring list" where
  "split_lines [] = [[]]"
| "split_lines (c # cs) =
     (if c = 10 then [] # split_lines cs
      else (case split_lines cs of [] \<Rightarrow> [[c]] | l # ls \<Rightarrow> (c # l) # ls))"

fun join_lines :: "jsstring list \<Rightarrow> jsstring" where
  "join_lines [] = []"
| "join_lines [l] = l"
| "join_lines (l # l' # ls) = l @ 10 # join_lines (l' # ls)"

text \<open>The lines that have a newline before them and a newline after them.\<close>

definition inner_lines :: "jsstring \<Rightarrow> jsstring list" where
  "inner_lines text = butlast (tl (split_lines text))"

primrec first_some :: "('a \<Rightarrow> 'b option) \<Rightarrow> 'a list \<Rightarrow> 'b option" where
  "first_some f [] = None"
| "first_some f (x # xs) = (case f x of Some y \<Rightarrow> Some y | None \<Rightarrow> first_some f xs)"

text \<open>
  The value of a line that reads \<open>KEY\<close> and then a value, after leading spaces if
  \<open>indent\<close> allows them: the value is the rest of the line, it is not empty and has no
  line terminator.
\<close>

definition line_value :: "bool \<Rightarrow> string \<Rightarrow> jsstring \<Rightarrow> jsstring option" where
  "line_value indent key l =
     (let l' = (if indent then dropWhile (\<lambda>c. c = 32) l else l);
          v = drop (length key) l'
      in if take (length key) l' = js key \<and> v \<noteq> [] \<and> \<not> list_ex line_terminator v
         then Some v else None)"

text \<open>
  The value of a field in a text: the value of the first inner line that reads the key
  after its indentation.
\<close>

definition field_value :: "string \<Rightarrow> jsstring \<Rightarrow> jsstring option" where
  "field_value key t = first_some (line_value True key) (inner_lines t)"

text \<open>The base-10 numeral of a natural number.\<close>

fun decimal :: "nat \<Rightarrow> jsstring" where
  "decimal n = (if n < 10 then [48 + n] else decimal (n div 10) @ [48 + n mod 10])"

declare decimal.simps [simp del]

section \<open>Example inputs\<close>

text \<open>Only the two variables of an API key are set.\<close>

definition env_api_key :: environment where
  "env_api_key =
     \<lparr>APPLE_ID = None, APPLE_ID_PASSWORD = None, APPLE_TEAM_ID = None,
      API_KEY_ID = Some (js ''KEY123''), API_KEY_ISSUER_ID = Some (js ''issuer-1''),
      TEAM_SHORT_NAME = None, PSC_NAME = None\<rparr>"

text \<open>The same, with the certificate name that \<open>src/index.js\<close> requires.\<close>

definition env_api_key_psc :: environment where
  "env_api_key_psc = env_api_key\<lparr>PSC_NAME := Some (js ''Developer ID Installer: X'')\<rparr>"

text \<open>An Apple ID with its password, a team identifier and the certificate name.\<close>

definition env_apple_id :: environment where
  "env_apple_id =
     \<lparr>APPLE_ID = Some (js ''me@x.org''), APPLE_ID_PASSWORD = Some (js ''pw''),
      APPLE_TEAM_ID = Some (js ''TEAM''), API_KEY_ID = None, API_KEY_ISSUER_ID = None,
      TEAM_SHORT_NAME = None, PSC_NAME = Some (js ''Developer ID Installer: X'')\<rparr>"

text \<open>Options of an Apple ID, and of an API key with a team short name.\<close>

definition opts_apple_id :: auth_info where
  "opts_apple_id =
     \<lparr>appleId = Str (js ''me@x.org''), appleIdPassword = Str (js ''pw''),
      appleTeamId = Str (js ''TEAM''), appleApiKey = Undefined, appleApiIssuer = Undefined,
      teamShortName = Undefined, productSignCertificateName = Undefined\<rparr>"

definition opts_api_key :: auth_info where
  "opts_api_key =
     \<lparr>appleId = Undefined, appleIdPassword = Undefined, appleTeamId = Undefined,
      appleApiKey = Str (js ''KEY123''), appleApiIssuer = Str (js ''issuer-1''),
      teamShortName = Str (js ''TSN''), productSignCertificateName = Undefined\<rparr>"

text \<open>Answers of the status tool.\<close>

definition text_in_progress :: jsstring where
  "text_in_progress = js ''No errors\<newline>   RequestUUID: u-1\<newline>        Status: in progress\<newline>''"

definition text_success :: jsstring where
  "text_success = js ''No errors\<newline>        Status: success\<newline>   Status Code: 0\<newline>''"

definition text_invalid :: jsstring where
  "text_invalid =
     js (''No errors\<newline>        Status: invalid\<newline>    LogFileURL: https://x/log\<newline>'' @
         ''   Status Code: 2\<newline>Status Message: Package Invalid\<newline>'')"

definition text_invalid_zero :: jsstring where
  "text_invalid_zero =
     js ''No errors\<newline>        Status: invalid\<newline>   Status Code: 0\<newline>Status Message: m\<newline>''"

definition text_code_abc :: jsstring where
  "text_code_abc = js ''No errors\<newline>        Status: invalid\<newline>   Status Code: abc\<newline>''"

definition text_all_six :: jsstring where
  "text_all_six =
     js (''No errors\<newline>   RequestUUID: u-1\<newline>          Date: 2019-05-28 13:47:29 +0000\<newline>'' @
         ''        Status: invalid\<newline>    LogFileURL: (null)\<newline>   Status Code: 2\<newline>'' @
         ''Status Message: Package Invalid\<newline>'')"

text \<open>A status code in the last line of a text, with no newline after it.\<close>

definition text_code_last :: jsstring where
  "text_code_last = js ''No errors\<newline>        Status: invalid\<newline>   Status Code: 2''"

text \<open>The status tool answers in progress, in progress, success.\<close>

definition script_three :: "nat \<Rightarrow> exec_result" where
  "script_three n =
     (if n = 0 then Inr text_in_progress else if n = 1 then Inr text_in_progress
      else Inr text_success)"

text \<open>The status tool fails twice, then answers success.\<close>

definition script_retry :: "nat \<Rightarrow> exec_result" where
  "script_retry n = (if n < 2 then Inl (js ''Command failed'') else Inr text_success)"

text \<open>An upload that succeeds, in whose output the identifier is the first line.\<close>

definition stdout_uuid_first :: jsstring where
  "stdout_uuid_first = js ''RequestUUID = u-1\<newline>No errors uploading\<newline>''"

text \<open>The same, with the identifier in the last line, which has no newline after it.\<close>

definition stdout_uuid_last :: jsstring where
  "stdout_uuid_last = js ''No errors uploading\<newline>RequestUUID = u-1''"

text \<open>The same, with the identifier line between two newlines.\<close>

definition stdout_uuid_inner :: jsstring where
  "stdout_uuid_inner = js ''No errors uploading\<newline>RequestUUID = u-1\<newline>''"

text \<open>An upload that succeeds, in whose output there is no identifier line, and there is a line that the
  response parser reads.\<close>

definition stdout_no_uuid :: jsstring where
  "stdout_no_uuid = js ''No errors uploading '/dist/app.pkg'.\<newline>   RequestUUID: u-1\<newline>''"

text \<open>
  A signing tool that does what its manual says: called with \<open>--sign\<close>, an identity, a
  source that exists and a destination, it writes the signed bytes (here the source bytes
  after a mark) at the destination; called otherwise, it fails and writes nothing.
\<close>

definition productsign_tool ::
  "jsstring \<Rightarrow> js_value list \<Rightarrow> files \<Rightarrow> exec_result \<times> files" where
  "productsign_tool cmd args fs =
     (case args of
        [Str flag, Str identity, Str src, Str dst] \<Rightarrow>
          (case fs src of
             Some b \<Rightarrow> (Inr [], fs(dst := Some (83 # b)))
           | None \<Rightarrow> (Inl (js ''Command failed''), fs))
      | _ \<Rightarrow> (Inl (js ''Command failed''), fs))"

definition files_one_pkg :: files where
  "files_one_pkg p = (if p = js ''/dist/app.pkg'' then Some [1, 2, 3] else None)"

definition parse_app_pkg :: "jsstring \<Rightarrow> jsstring \<times> jsstring" where
  "parse_app_pkg p = (js ''/dist'', js ''app'')"

definition resolve_in_dir :: "jsstring \<Rightarrow> jsstring \<Rightarrow> jsstring" where
  "resolve_in_dir dir f = dir @ 47 # f"

section \<open>What the patterns read from a text\<close>

text \<open>
  Every pattern of the program starts with a newline, ends with a newline, and captures in
  between. On a text cut into lines it therefore reads the first inner line of its form.
\<close>

declare dots_lazy.simps [simp del]

lemma split_lines_nonempty: "split_lines t \<noteq> []"
  by (induction t) (auto split: list.splits)

lemma split_lines_no_lf: "l \<in> set (split_lines t) \<Longrightarrow> 10 \<notin> set l"
  by (induction t arbitrary: l) (auto split: list.splits if_splits)

lemma join_split_lines: "join_lines (split_lines t) = t"
proof (induction t)
  case Nil
  show ?case by simp
next
  case (Cons c cs)
  obtain l ls where sp: "split_lines cs = l # ls"
    using split_lines_nonempty [of cs] by (cases "split_lines cs") auto
  show ?case
  proof (cases "c = 10")
    case True
    with Cons sp show ?thesis by simp
  next
    case False
    with Cons sp show ?thesis by (cases ls) auto
  qed
qed

lemma rmatch_lits:
  "rmatch (lits k @ R) s =
     (if take (length k) s = js k then rmatch R (drop (length k) s) else None)"
proof (induction k arbitrary: s)
  case Nil
  show ?case by (simp add: lits_def js_def)
next
  case (Cons c k)
  have step: "rmatch (lits (c # k) @ R) s =
      (case s of [] \<Rightarrow> None | x # xs \<Rightarrow> if x = of_char c then rmatch (lits k @ R) xs else None)"
    unfolding lits_def by simp
  show ?case
    unfolding step using Cons [unfolded lits_def js_def]
    by (cases s) (auto simp: lits_def js_def)
qed

lemma star_greedy_skip:
  assumes "\<And>xs. k (c # xs) = None"
  shows "star_greedy c k s = k (dropWhile (\<lambda>x. x = c) s)"
  using assms by (induction s) (auto split: option.splits)

lemma dots_lazy_line:
  "10 \<notin> set v \<Longrightarrow>
   dots_lazy (rmatch [Lit 10]) acc (v @ 10 # rest) =
     (if list_ex line_terminator v then None else Some (acc @ v))"
proof (induction v arbitrary: acc)
  case Nil
  show ?case by (simp add: dots_lazy.simps)
next
  case (Cons x v)
  then have x: "x \<noteq> 10" and v: "10 \<notin> set v" by auto
  have k: "rmatch [Lit 10] (x # s) = None" for s
    using x by simp
  show ?case
    by (subst dots_lazy.simps) (simp del: rmatch.simps add: k Cons.IH [OF v])
qed

lemma dots_lazy_last:
  "10 \<notin> set v \<Longrightarrow> dots_lazy (rmatch [Lit 10]) acc v = None"
proof (induction v arbitrary: acc)
  case Nil
  show ?case by (simp add: dots_lazy.simps)
next
  case (Cons x v)
  then have x: "x \<noteq> 10" and v: "10 \<notin> set v" by auto
  have k: "rmatch [Lit 10] (x # s) = None" for s
    using x by simp
  show ?case
    by (subst dots_lazy.simps) (simp del: rmatch.simps add: k Cons.IH [OF v])
qed

lemma rmatch_group_line:
  "10 \<notin> set v \<Longrightarrow>
   rmatch [DotPlusLazyGroup, Lit 10] (v @ 10 # rest) =
     (if v \<noteq> [] \<and> \<not> list_ex line_terminator v then Some v else None)"
  by (cases v) (auto simp: dots_lazy_line line_terminator_def)

lemma rmatch_group_last:
  "10 \<notin> set v \<Longrightarrow> rmatch [DotPlusLazyGroup, Lit 10] v = None"
  by (cases v) (auto simp: dots_lazy_last)


lemma take_eq_no_lf:
  assumes "10 \<notin> set l" "10 \<notin> set k"
  shows "take (length k) (l @ 10 # rest) = k \<longleftrightarrow> take (length k) l = k"
proof (cases "length k \<le> length l")
  case True
  then show ?thesis by simp
next
  case False
  then obtain m where m: "length k - length l = Suc m"
    by (cases "length k - length l") auto
  have "length (take (length k) l) \<noteq> length k"
    using False by simp
  then have a: "take (length k) l \<noteq> k" by auto
  have in10: "10 \<in> set (take (length k) (l @ 10 # rest))"
    using m by simp
  have b: "take (length k) (l @ 10 # rest) \<noteq> k"
  proof
    assume e: "take (length k) (l @ 10 # rest) = k"
    from in10 have "10 \<in> set k" unfolding e .
    with assms(2) show False by simp
  qed
  from a b show ?thesis by simp
qed

lemma length_js [simp]: "length (js k) = length k"
  by (simp add: js_def)

lemma rmatch_key_line:
  assumes l: "10 \<notin> set l" and k: "10 \<notin> set (js key)"
  shows "rmatch (lits key @ [DotPlusLazyGroup, Lit 10]) (l @ 10 # rest) = line_value False key l"
proof (cases "take (length key) l = js key")
  case True
  then have len: "length key \<le> length l"
    by (metis length_js length_take min.cobounded1 min.commute)
  have v: "10 \<notin> set (drop (length key) l)"
    using l by (meson in_set_dropD)
  have "take (length key) (l @ 10 # rest) = js key"
    using take_eq_no_lf [OF l k, of rest] True by simp
  moreover have "drop (length key) (l @ 10 # rest) = drop (length key) l @ 10 # rest"
    using len by simp
  ultimately show ?thesis
    using True rmatch_group_line [OF v, of rest]
    by (simp only: rmatch_lits line_value_def Let_def if_True if_False simp_thms)
next
  case False
  then have "take (length key) (l @ 10 # rest) \<noteq> js key"
    using take_eq_no_lf [OF l k, of rest] by simp
  with False show ?thesis
    by (simp only: rmatch_lits line_value_def Let_def if_True if_False simp_thms)
qed

lemma rmatch_key_last:
  assumes l: "10 \<notin> set l"
  shows "rmatch (lits key @ [DotPlusLazyGroup, Lit 10]) l = None"
proof -
  have "10 \<notin> set (drop (length key) l)"
    using l by (meson in_set_dropD)
  then have "rmatch [DotPlusLazyGroup, Lit 10] (drop (length key) l) = None"
    by (rule rmatch_group_last)
  then show ?thesis
    unfolding rmatch_lits by simp
qed

lemma dropWhile_space_line:
  "dropWhile (\<lambda>x. x = 32) (l @ 10 # rest) = dropWhile (\<lambda>x. x = (32::nat)) l @ 10 # rest"
  by (induction l) auto

lemma rmatch_lits_space:
  assumes "key \<noteq> []" "of_char (hd key) \<noteq> (32::nat)"
  shows "rmatch (lits key @ R) (32 # xs) = None"
  using assms by (cases key) (auto simp: lits_def)

lemma rmatch_indent_line:
  assumes l: "10 \<notin> set l" and k: "10 \<notin> set (js key)"
    and ne: "key \<noteq> []" and sp: "of_char (hd key) \<noteq> (32::nat)"
  shows "rmatch (Star 32 # lits key @ [DotPlusLazyGroup, Lit 10]) (l @ 10 # rest)
         = line_value True key l"
proof -
  have l': "10 \<notin> set (dropWhile (\<lambda>c. c = 32) l)"
    using l by (meson set_dropWhileD)
  have "rmatch (Star 32 # lits key @ [DotPlusLazyGroup, Lit 10]) (l @ 10 # rest)
        = rmatch (lits key @ [DotPlusLazyGroup, Lit 10]) (dropWhile (\<lambda>c. c = 32) l @ 10 # rest)"
    using star_greedy_skip [of "rmatch (lits key @ [DotPlusLazyGroup, Lit 10])" 32 "l @ 10 # rest",
        OF rmatch_lits_space [OF ne sp]]
    by (simp add: dropWhile_space_line)
  also have "\<dots> = line_value False key (dropWhile (\<lambda>c. c = 32) l)"
    by (rule rmatch_key_line [OF l' k])
  also have "\<dots> = line_value True key l"
    by (simp add: line_value_def)
  finally show ?thesis .
qed

lemma rmatch_indent_last:
  assumes l: "10 \<notin> set l"
    and ne: "key \<noteq> []" and sp: "of_char (hd key) \<noteq> (32::nat)"
  shows "rmatch (Star 32 # lits key @ [DotPlusLazyGroup, Lit 10]) l = None"
proof -
  have l': "10 \<notin> set (dropWhile (\<lambda>c. c = 32) l)"
    using l by (meson set_dropWhileD)
  have "rmatch (Star 32 # lits key @ [DotPlusLazyGroup, Lit 10]) l
        = rmatch (lits key @ [DotPlusLazyGroup, Lit 10]) (dropWhile (\<lambda>c. c = 32) l)"
    using star_greedy_skip [of "rmatch (lits key @ [DotPlusLazyGroup, Lit 10])" 32 l,
        OF rmatch_lits_space [OF ne sp]]
    by simp
  then show ?thesis
    by (simp only: rmatch_key_last [OF l'])
qed

lemma exec_skip_line:
  "10 \<notin> set l \<Longrightarrow> regex_exec (Lit 10 # Q) (l @ s) = regex_exec (Lit 10 # Q) s"
  by (induction l) auto

lemma exec_lines:
  assumes line: "\<And>l rest. 10 \<notin> set l \<Longrightarrow> rmatch Q (l @ 10 # rest) = g l"
    and last: "\<And>l. 10 \<notin> set l \<Longrightarrow> rmatch Q l = None"
  shows "ls \<noteq> [] \<Longrightarrow> (\<And>l. l \<in> set ls \<Longrightarrow> 10 \<notin> set l) \<Longrightarrow>
         regex_exec (Lit 10 # Q) (10 # join_lines ls) = first_some g (butlast ls)"
proof (induction ls rule: join_lines.induct)
  case 1
  then show ?case by simp
next
  case (2 l)
  then have l: "10 \<notin> set l" by simp
  have "regex_exec (Lit 10 # Q) l = regex_exec (Lit 10 # Q) []"
    using exec_skip_line [OF l, of Q "[]"] by simp
  then show ?case
    using last [OF l] by simp
next
  case (3 l l' ls)
  then have l: "10 \<notin> set l" by simp
  have ih: "regex_exec (Lit 10 # Q) (10 # join_lines (l' # ls)) = first_some g (butlast (l' # ls))"
    using 3 by simp
  have here: "rmatch (Lit 10 # Q) (10 # l @ 10 # join_lines (l' # ls)) = g l"
    using line [OF l] by simp
  have skip: "regex_exec (Lit 10 # Q) (l @ 10 # join_lines (l' # ls))
              = regex_exec (Lit 10 # Q) (10 # join_lines (l' # ls))"
    by (rule exec_skip_line [OF l])
  have bl: "butlast (l # l' # ls) = l # butlast (l' # ls)" by simp
  have "regex_exec (Lit 10 # Q) (10 # join_lines (l # l' # ls))
        = (case g l of Some c \<Rightarrow> Some c
           | None \<Rightarrow> regex_exec (Lit 10 # Q) (l @ 10 # join_lines (l' # ls)))"
    using here by (simp only: join_lines.simps regex_exec.simps)
  also have "\<dots> = (case g l of Some c \<Rightarrow> Some c | None \<Rightarrow> first_some g (butlast (l' # ls)))"
    by (simp only: skip ih)
  also have "\<dots> = first_some g (butlast (l # l' # ls))"
    by (simp only: bl first_some.simps)
  finally show ?case .
qed

lemma exec_inner_lines:
  assumes line: "\<And>l rest. 10 \<notin> set l \<Longrightarrow> rmatch Q (l @ 10 # rest) = g l"
    and last: "\<And>l. 10 \<notin> set l \<Longrightarrow> rmatch Q l = None"
  shows "regex_exec (Lit 10 # Q) t = first_some g (inner_lines t)"
proof -
  obtain l ls where sp: "split_lines t = l # ls"
    using split_lines_nonempty [of t] by (cases "split_lines t") auto
  have nolf: "\<And>x. x \<in> set (l # ls) \<Longrightarrow> 10 \<notin> set x"
    using split_lines_no_lf [of _ t] sp by metis
  have t: "t = join_lines (l # ls)"
    using join_split_lines [of t] sp by simp
  show ?thesis
  proof (cases ls)
    case Nil
    have "regex_exec (Lit 10 # Q) l = regex_exec (Lit 10 # Q) []"
      using exec_skip_line [of l Q "[]"] nolf by simp
    then show ?thesis
      using Nil t sp by (simp add: inner_lines_def)
  next
    case (Cons l' ls')
    have "regex_exec (Lit 10 # Q) t = regex_exec (Lit 10 # Q) (10 # join_lines ls)"
      using exec_skip_line [of l Q "10 # join_lines ls"] nolf t Cons by simp
    also have "\<dots> = first_some g (butlast ls)"
      using exec_lines [of Q g ls, OF line last] nolf Cons by simp
    finally show ?thesis
      using sp by (simp add: inner_lines_def)
  qed
qed

lemma exec_uuid_rx:
  "regex_exec uuid_rx t = first_some (line_value False ''RequestUUID = '') (inner_lines t)"
  unfolding uuid_rx_def
proof (rule exec_inner_lines)
  have k: "10 \<notin> set (js ''RequestUUID = '')" by (simp add: js_def)
  show "rmatch (lits ''RequestUUID = '' @ [DotPlusLazyGroup, Lit 10]) (l @ 10 # rest)
        = line_value False ''RequestUUID = '' l" if "10 \<notin> set l" for l rest
    using that k by (rule rmatch_key_line)
  show "rmatch (lits ''RequestUUID = '' @ [DotPlusLazyGroup, Lit 10]) l = None"
    if "10 \<notin> set l" for l
    using that by (rule rmatch_key_last)
qed

lemma exec_field_rx:
  assumes k: "10 \<notin> set (js key)" and ne: "key \<noteq> []" and sp: "of_char (hd key) \<noteq> (32::nat)"
  shows "regex_exec (field_rx key) t = first_some (line_value True key) (inner_lines t)"
  unfolding field_rx_def
proof (rule exec_inner_lines)
  show "rmatch (Star 32 # lits key @ [DotPlusLazyGroup, Lit 10]) (l @ 10 # rest)
        = line_value True key l" if "10 \<notin> set l" for l rest
    using that k ne sp by (rule rmatch_indent_line)
  show "rmatch (Star 32 # lits key @ [DotPlusLazyGroup, Lit 10]) l = None"
    if "10 \<notin> set l" for l
    using that ne sp by (rule rmatch_indent_last)
qed

lemma split_lines_append:
  "split_lines (a @ 10 # b) = split_lines a @ split_lines b"
proof (induction a)
  case Nil
  show ?case by simp
next
  case (Cons c a)
  obtain l ls where sp: "split_lines a = l # ls"
    using split_lines_nonempty [of a] by (cases "split_lines a") auto
  with Cons show ?case by simp
qed

lemma split_lines_single: "10 \<notin> set l \<Longrightarrow> split_lines l = [l]"
  by (induction l) auto

lemma inner_lines_first:
  "10 \<notin> set l \<Longrightarrow> inner_lines (l @ 10 # rest) = butlast (split_lines rest)"
  by (simp add: inner_lines_def split_lines_append split_lines_single)

lemma inner_lines_last:
  "10 \<notin> set l \<Longrightarrow> inner_lines (pre @ 10 # l) = tl (split_lines pre)"
proof -
  assume l: "10 \<notin> set l"
  obtain x xs where sp: "split_lines pre = x # xs"
    using split_lines_nonempty [of pre] by (cases "split_lines pre") auto
  show ?thesis
    using l by (simp add: inner_lines_def split_lines_append split_lines_single sp)
qed

lemma join_lines_append:
  "xs \<noteq> [] \<Longrightarrow> ys \<noteq> [] \<Longrightarrow> join_lines (xs @ ys) = join_lines xs @ 10 # join_lines ys"
proof (induction xs rule: join_lines.induct)
  case 1
  then show ?case by simp
next
  case (2 l)
  then show ?case by (cases ys) auto
next
  case (3 l l' ls)
  then show ?case by simp
qed

lemma inner_line_delimited:
  assumes "l \<in> set (inner_lines t)"
  shows "\<exists>pre post. t = pre @ 10 # l @ 10 # post"
proof -
  obtain x xs where sp: "split_lines t = x # xs"
    using split_lines_nonempty [of t] by (cases "split_lines t") auto
  with assms have mem: "l \<in> set (butlast xs)" by (simp add: inner_lines_def)
  then have xs: "xs \<noteq> []" by auto
  from mem obtain a b where ab: "butlast xs = a @ l # b"
    by (meson split_list)
  have "xs = butlast xs @ [last xs]" using xs by simp
  with ab have xs_eq: "xs = a @ l # (b @ [last xs])" by simp
  have "t = join_lines (x # xs)"
    using join_split_lines [of t] sp by simp
  also have "\<dots> = join_lines ((x # a) @ (l # (b @ [last xs])))"
    using xs_eq by simp
  also have "\<dots> = join_lines (x # a) @ 10 # join_lines ([l] @ (b @ [last xs]))"
    by (subst join_lines_append) simp_all
  also have "\<dots> = join_lines (x # a) @ 10 # l @ 10 # join_lines (b @ [last xs])"
    by (subst join_lines_append) simp_all
  finally show ?thesis by blast
qed

lemma first_some_Some:
  "first_some f xs = Some y \<Longrightarrow> \<exists>x \<in> set xs. f x = Some y"
  by (induction xs) (auto split: option.splits)

lemma first_some_None:
  "first_some f xs = None \<longleftrightarrow> (\<forall>x \<in> set xs. f x = None)"
  by (induction xs) (auto split: option.splits)

lemma line_value_Some:
  assumes "line_value indent key l = Some v"
  shows "v \<noteq> [] \<and> \<not> list_ex line_terminator v
         \<and> (if indent then dropWhile (\<lambda>c. c = 32) l else l) = js key @ v"
proof -
  let ?l = "if indent then dropWhile (\<lambda>c. c = 32) l else l"
  from assms have t: "take (length key) ?l = js key" and v: "v = drop (length key) ?l"
    and ne: "v \<noteq> []" and lt: "\<not> list_ex line_terminator v"
    by (auto simp: line_value_def Let_def split: if_splits)
  have "?l = take (length key) ?l @ drop (length key) ?l" by simp
  with t v have "?l = js key @ v" by simp
  with ne lt show ?thesis by simp
qed

section \<open>Credential validation\<close>

lemma getAuthInfo_api_key:
  assumes "truthy (getenv (PSC_NAME env))"
    and "truthy (getenv (API_KEY_ID env))" and "truthy (getenv (API_KEY_ISSUER_ID env))"
    and "\<not> truthy (getenv (APPLE_ID env))" and "\<not> truthy (getenv (APPLE_ID_PASSWORD env))"
  shows "getAuthInfo env =
           Inr \<lparr>appleId = getenv (APPLE_ID env), appleIdPassword = getenv (APPLE_ID_PASSWORD env),
                appleTeamId = Undefined, appleApiKey = getenv (API_KEY_ID env),
                appleApiIssuer = getenv (API_KEY_ISSUER_ID env),
                teamShortName = getenv (TEAM_SHORT_NAME env),
                productSignCertificateName = getenv (PSC_NAME env)\<rparr>"
  using assms by (simp add: getAuthInfo_def)

lemma getAuthInfo_one_variant:
  assumes "getAuthInfo env = Inr a"
  shows "(truthy (appleId a) \<and> truthy (appleIdPassword a)
            \<and> \<not> truthy (appleApiKey a) \<and> \<not> truthy (appleApiIssuer a))
         \<or> (\<not> truthy (appleId a) \<and> \<not> truthy (appleIdPassword a)
            \<and> truthy (appleApiKey a) \<and> truthy (appleApiIssuer a))"
  using assms by (auto simp: getAuthInfo_def Let_def split: if_splits)

lemma getAuthInfo_u_apple_id_only:
  assumes "getAuthInfo_u env = Inr a"
  shows "truthy (appleId a) \<and> truthy (appleIdPassword a) \<and> truthy (appleTeamId a)
         \<and> \<not> truthy (appleApiKey a) \<and> \<not> truthy (appleApiIssuer a)"
  using assms by (auto simp: getAuthInfo_u_def Let_def split: if_splits)

text \<open>
  C3. An environment with the two variables of an API key and none of an Apple ID should
  pass validation as the API key variant. \<open>getAuthInfo\<close> of \<open>src/index.js\<close> accepts it
  (\<open>getAuthInfo_api_key\<close>, given the certificate name). \<open>getAuthInfo\<close> of
  \<open>src/unnamed/part_000\<close> rejects it: its third check throws whenever one of
  \<open>APPLE_ID\<close>, \<open>APPLE_ID_PASSWORD\<close>, \<open>APPLE_TEAM_ID\<close> is not set.
\<close>

theorem getAuthInfo_u_rejects_api_key:
  "getAuthInfo_u env_api_key =
     Inl (ConfigurationError (js (''One of APPLE_ID, APPLE_ID_PASSWORD, and APPLE_TEAM_ID '' @
       ''environment variables is missing for notarization.'')))"
  by (simp add: getAuthInfo_u_def env_api_key_def getenv_def js_def)

theorem getAuthInfo_u_rejects_api_key_witness:
  "isl (getAuthInfo_u env_api_key) \<and> \<not> isl (getAuthInfo env_api_key_psc)"
  using getAuthInfo_u_rejects_api_key
  by (simp add: getAuthInfo_def env_api_key_psc_def env_api_key_def getenv_def js_def)

section \<open>Status poller\<close>

lemma js_status_neq [simp]:
  "js ''in progress'' \<noteq> js ''invalid''" "js ''in progress'' \<noteq> js ''success''"
  "js ''success'' \<noteq> js ''invalid''" "js ''invalid'' \<noteq> js ''success''"
  "js ''success'' \<noteq> js ''in progress''" "js ''invalid'' \<noteq> js ''in progress''"
  by (simp_all add: js_def)

lemma final_checks_success:
  "status info = Str (js ''success'') \<Longrightarrow> final_checks info = Inr ()"
  by (simp add: final_checks_def)

lemma final_checks_in_progress:
  "status info = Str (js ''in progress'') \<Longrightarrow>
   final_checks info = Inl (UnrecognizedStatus (Str (js ''in progress'')))"
  by (simp add: final_checks_def)

lemma final_checks_no_exec: "final_checks info \<noteq> Inl (ExecaError m)"
  by (simp add: final_checks_def)

lemma waitForNotarize_fail:
  "script n = Inl m \<Longrightarrow>
   waitForNotarize script u opts n tr =
   waitForNotarize script u opts (Suc n) (tr @ [status_query getAuthorizingArgs u opts, Delay 30000])"
  by (subst waitForNotarize.simps) simp

lemma waitForNotarize_u_fail:
  "script n = Inl m \<Longrightarrow>
   waitForNotarize_u script u opts n tr =
   waitForNotarize_u script u opts (Suc n) (tr @ [status_query getAuthorizingArgs_u u opts, Delay 30000])"
  by (subst waitForNotarize_u.simps) simp

lemma waitForNotarize_final:
  "script n = Inr out \<Longrightarrow> status (parseNotarizationInfo out) \<noteq> Str (js ''in progress'') \<Longrightarrow>
   waitForNotarize script u opts n tr =
   Some (final_checks (parseNotarizationInfo out), Suc n, tr @ [status_query getAuthorizingArgs u opts])"
  by (subst waitForNotarize.simps) simp

lemma waitForNotarize_u_final:
  "script n = Inr out \<Longrightarrow> status (parseNotarizationInfo out) \<noteq> Str (js ''in progress'') \<Longrightarrow>
   waitForNotarize_u script u opts n tr =
   Some (final_checks (parseNotarizationInfo out), Suc n, tr @ [status_query getAuthorizingArgs_u u opts])"
  by (subst waitForNotarize_u.simps) simp

lemma waitForNotarize_u_in_progress:
  "script n = Inr out \<Longrightarrow> status (parseNotarizationInfo out) = Str (js ''in progress'') \<Longrightarrow>
   waitForNotarize_u script u opts n tr =
   waitForNotarize_u script u opts (Suc n) (tr @ [status_query getAuthorizingArgs_u u opts, Delay 30000])"
  by (subst waitForNotarize_u.simps) simp

lemma waitForNotarize_in_progress:
  "script n = Inr out \<Longrightarrow> status (parseNotarizationInfo out) = Str (js ''in progress'') \<Longrightarrow>
   waitForNotarize script u opts n tr =
   Option.bind
     (waitForNotarize script u opts (Suc n) (tr @ [status_query getAuthorizingArgs u opts, Delay 30000]))
     (\<lambda>r. case fst r of
            Inl e \<Rightarrow> Some (Inl e, snd r)
          | Inr x \<Rightarrow> Some (Inl (UnrecognizedStatus (Str (js ''in progress''))), snd r))"
  by (subst waitForNotarize.simps) (simp add: final_checks_in_progress cong: sum.case_cong)

text \<open>in progress, in progress, success\<close>

lemma waitForNotarize_u_three:
  assumes "script n = Inr t0" "status (parseNotarizationInfo t0) = Str (js ''in progress'')"
    and "script (Suc n) = Inr t1" "status (parseNotarizationInfo t1) = Str (js ''in progress'')"
    and "script (Suc (Suc n)) = Inr t2" "status (parseNotarizationInfo t2) = Str (js ''success'')"
  shows "waitForNotarize_u script u opts n tr =
         Some (Inr (), n + 3,
               tr @ [status_query getAuthorizingArgs_u u opts, Delay 30000,
                     status_query getAuthorizingArgs_u u opts, Delay 30000,
                     status_query getAuthorizingArgs_u u opts])"
  using assms
  by (simp add: waitForNotarize_u_in_progress waitForNotarize_u_final final_checks_success)

lemma waitForNotarize_three:
  assumes "script n = Inr t0" "status (parseNotarizationInfo t0) = Str (js ''in progress'')"
    and "script (Suc n) = Inr t1" "status (parseNotarizationInfo t1) = Str (js ''in progress'')"
    and "script (Suc (Suc n)) = Inr t2" "status (parseNotarizationInfo t2) = Str (js ''success'')"
  shows "waitForNotarize script u opts n tr =
         Some (Inl (UnrecognizedStatus (Str (js ''in progress''))), n + 3,
               tr @ [status_query getAuthorizingArgs u opts, Delay 30000,
                     status_query getAuthorizingArgs u opts, Delay 30000,
                     status_query getAuthorizingArgs u opts])"
  using assms
  by (simp add: waitForNotarize_in_progress waitForNotarize_final final_checks_success)

lemmas parse_eval =
  parseNotarizationInfo_def matchToProperty_def field_rx_def lits_def js_def
  dots_lazy.simps line_terminator_def Let_def

lemma status_text_in_progress:
  "status (parseNotarizationInfo text_in_progress) = Str (js ''in progress'')"
  by (simp add: parse_eval text_in_progress_def)

lemma status_text_success:
  "status (parseNotarizationInfo text_success) = Str (js ''success'')"
  by (simp add: parse_eval text_success_def)

lemma waitForNotarize_result:
  assumes "waitForNotarize script u opts n tr = Some r"
  shows "\<exists>i out. script i = Inr out \<and> fst r = final_checks (parseNotarizationInfo out)"
proof (rule waitForNotarize.raw_induct [where P = "\<lambda>script u opts n tr r.
    \<exists>i out. script i = Inr out \<and> fst r = final_checks (parseNotarizationInfo out)", OF _ assms],
    goal_cases)
  case (1 f script u opts n tr r)
  show ?case
  proof (cases "script n")
    case (Inl m)
    with 1 show ?thesis by auto
  next
    case (Inr out)
    show ?thesis
    proof (cases "status (parseNotarizationInfo out) = Str (js ''in progress'')")
      case False
      with 1(2) Inr have "fst r = final_checks (parseNotarizationInfo out)" by auto
      with Inr show ?thesis by blast
    next
      case True
      with 1(2) Inr obtain r' where
        inner: "f script u opts (Suc n)
                  (tr @ [status_query getAuthorizingArgs u opts, Delay 30000]) = Some r'"
        and r: "(case fst r' of Inl e \<Rightarrow> Some (Inl e, snd r')
                 | Inr x \<Rightarrow> Some (final_checks (parseNotarizationInfo out), snd r')) = Some r"
        by (auto simp: bind_eq_Some_conv)
      show ?thesis
      proof (cases "fst r'")
        case (Inl e)
        with r have "fst r = fst r'" by auto
        with 1(1) [OF inner] show ?thesis by simp
      next
        case (Inr x)
        with r have "fst r = final_checks (parseNotarizationInfo out)" by auto
        with \<open>script n = Inr out\<close> show ?thesis by blast
      qed
    qed
  qed
qed

lemma waitForNotarize_u_result:
  assumes "waitForNotarize_u script u opts n tr = Some r"
  shows "\<exists>i out. script i = Inr out \<and> fst r = final_checks (parseNotarizationInfo out)"
proof (rule waitForNotarize_u.raw_induct [where P = "\<lambda>script u opts n tr r.
    \<exists>i out. script i = Inr out \<and> fst r = final_checks (parseNotarizationInfo out)", OF _ assms],
    goal_cases)
  case (1 f script u opts n tr r)
  show ?case
  proof (cases "script n")
    case (Inl m)
    with 1 show ?thesis by auto
  next
    case (Inr out)
    show ?thesis
    proof (cases "status (parseNotarizationInfo out) = Str (js ''in progress'')")
      case False
      with 1(2) Inr have "fst r = final_checks (parseNotarizationInfo out)" by auto
      with Inr show ?thesis by blast
    next
      case True
      with 1 Inr show ?thesis by auto
    qed
  qed
qed

lemma waitForNotarize_retries:
  assumes "\<forall>i<k. isl (script (n + i))" and "script (n + k) = Inr out"
    and "status (parseNotarizationInfo out) = Str (js ''success'')"
  shows "waitForNotarize script u opts n tr =
         Some (Inr (), n + k + 1,
               tr @ concat (replicate k [status_query getAuthorizingArgs u opts, Delay 30000])
                  @ [status_query getAuthorizingArgs u opts])"
  using assms
proof (induction k arbitrary: n tr)
  case 0
  then show ?case
    by (simp add: waitForNotarize_final final_checks_success)
next
  case (Suc k)
  from Suc.prems(1) have "isl (script (n + 0))" by blast
  then obtain m where m: "script n = Inl m" by (cases "script n") auto
  have rest: "\<forall>i<k. isl (script (Suc n + i))"
    using Suc.prems(1) by (metis Suc_less_eq add_Suc_shift)
  have fin: "script (Suc n + k) = Inr out"
    using Suc.prems(2) by simp
  show ?case
    using Suc.IH [OF rest fin Suc.prems(3)] by (simp add: waitForNotarize_fail [of script n m, OF m])
qed

lemma waitForNotarize_u_retries:
  assumes "\<forall>i<k. isl (script (n + i))" and "script (n + k) = Inr out"
    and "status (parseNotarizationInfo out) = Str (js ''success'')"
  shows "waitForNotarize_u script u opts n tr =
         Some (Inr (), n + k + 1,
               tr @ concat (replicate k [status_query getAuthorizingArgs_u u opts, Delay 30000])
                  @ [status_query getAuthorizingArgs_u u opts])"
  using assms
proof (induction k arbitrary: n tr)
  case 0
  then show ?case
    by (simp add: waitForNotarize_u_final final_checks_success)
next
  case (Suc k)
  from Suc.prems(1) have "isl (script (n + 0))" by blast
  then obtain m where m: "script n = Inl m" by (cases "script n") auto
  have rest: "\<forall>i<k. isl (script (Suc n + i))"
    using Suc.prems(1) by (metis Suc_less_eq add_Suc_shift)
  have fin: "script (Suc n + k) = Inr out"
    using Suc.prems(2) by simp
  show ?case
    using Suc.IH [OF rest fin Suc.prems(3)] by (simp add: waitForNotarize_u_fail [of script n m, OF m])
qed

text \<open>
  C1. On the answers in progress, in progress, success the poller should make three queries,
  wait 30 seconds between them and return successfully. \<open>waitForNotarize\<close> of
  \<open>src/unnamed/part_000\<close> does (\<open>waitForNotarize_u_three\<close>). \<open>waitForNotarize\<close> of
  \<open>src/index.js\<close> makes the three queries and the two waits, and then fails: the call
  that read in progress does not return the result of the call it awaited, it goes on to its
  own final checks, where in progress is not success.
\<close>

theorem waitForNotarize_three_fails:
  "waitForNotarize script_three (js ''u-1'') opts_apple_id 0 [] =
     Some (Inl (UnrecognizedStatus (Str (js ''in progress''))), 3,
           [status_query getAuthorizingArgs (js ''u-1'') opts_apple_id, Delay 30000,
            status_query getAuthorizingArgs (js ''u-1'') opts_apple_id, Delay 30000,
            status_query getAuthorizingArgs (js ''u-1'') opts_apple_id])"
  using waitForNotarize_three [of script_three 0 text_in_progress text_in_progress text_success
      "js ''u-1''" opts_apple_id "[]"]
  by (simp add: script_three_def status_text_in_progress status_text_success)

theorem waitForNotarize_three_fails_witness:
  "waitForNotarize script_three (js ''u-1'') opts_apple_id 0 [] \<noteq>
   waitForNotarize_u script_three (js ''u-1'') opts_apple_id 0 []"
  using waitForNotarize_three_fails
    waitForNotarize_u_three [of script_three 0 text_in_progress text_in_progress text_success
      "js ''u-1''" opts_apple_id "[]"]
  by (simp add: script_three_def status_text_in_progress status_text_success)


text \<open>
  C9. A status query that fails is never reported to the caller. In both files, after a
  failed query the poller waits 30 seconds and queries again with the same request
  identifier and the same options; what the poller returns, when it returns, is the verdict
  on an answer of the status tool, never the failure of a query; any number \<open>k\<close> of failed
  queries before an answer of success is retried, with \<open>k\<close> waits and \<open>k + 1\<close> identical
  queries; and if every query fails the poller never returns.
\<close>

theorem query_failure_retried:
  "(script n = Inl m \<longrightarrow>
      waitForNotarize script u opts n tr =
        waitForNotarize script u opts (Suc n)
          (tr @ [status_query getAuthorizingArgs u opts, Delay 30000])
      \<and> waitForNotarize_u script u opts n tr =
        waitForNotarize_u script u opts (Suc n)
          (tr @ [status_query getAuthorizingArgs_u u opts, Delay 30000]))
   \<and> (waitForNotarize script u opts n tr = Some r \<or> waitForNotarize_u script u opts n tr = Some r \<longrightarrow>
        (\<exists>i out. script i = Inr out \<and> fst r = final_checks (parseNotarizationInfo out))
        \<and> (\<forall>e. fst r \<noteq> Inl (ExecaError e)))
   \<and> ((\<forall>i<k. isl (script (n + i))) \<and> script (n + k) = Inr out
          \<and> status (parseNotarizationInfo out) = Str (js ''success'') \<longrightarrow>
        waitForNotarize script u opts n tr =
          Some (Inr (), n + k + 1,
                tr @ concat (replicate k [status_query getAuthorizingArgs u opts, Delay 30000])
                   @ [status_query getAuthorizingArgs u opts])
        \<and> waitForNotarize_u script u opts n tr =
          Some (Inr (), n + k + 1,
                tr @ concat (replicate k [status_query getAuthorizingArgs_u u opts, Delay 30000])
                   @ [status_query getAuthorizingArgs_u u opts]))
   \<and> ((\<forall>i. isl (script i)) \<longrightarrow>
        waitForNotarize script u opts n tr = None \<and> waitForNotarize_u script u opts n tr = None)"
proof (intro conjI impI)
  assume "script n = Inl m"
  then show "waitForNotarize script u opts n tr =
        waitForNotarize script u opts (Suc n)
          (tr @ [status_query getAuthorizingArgs u opts, Delay 30000])"
    and "waitForNotarize_u script u opts n tr =
        waitForNotarize_u script u opts (Suc n)
          (tr @ [status_query getAuthorizingArgs_u u opts, Delay 30000])"
    by (rule waitForNotarize_fail, rule waitForNotarize_u_fail)
next
  assume "waitForNotarize script u opts n tr = Some r \<or> waitForNotarize_u script u opts n tr = Some r"
  then show ex: "\<exists>i out. script i = Inr out \<and> fst r = final_checks (parseNotarizationInfo out)"
    using waitForNotarize_result waitForNotarize_u_result by blast
  then show "\<forall>e. fst r \<noteq> Inl (ExecaError e)"
    using final_checks_no_exec by metis
next
  assume a: "(\<forall>i<k. isl (script (n + i))) \<and> script (n + k) = Inr out
          \<and> status (parseNotarizationInfo out) = Str (js ''success'')"
  then show "waitForNotarize script u opts n tr =
          Some (Inr (), n + k + 1,
                tr @ concat (replicate k [status_query getAuthorizingArgs u opts, Delay 30000])
                   @ [status_query getAuthorizingArgs u opts])"
    by (intro waitForNotarize_retries) auto
  from a show "waitForNotarize_u script u opts n tr =
          Some (Inr (), n + k + 1,
                tr @ concat (replicate k [status_query getAuthorizingArgs_u u opts, Delay 30000])
                   @ [status_query getAuthorizingArgs_u u opts])"
    by (intro waitForNotarize_u_retries) auto
next
  assume all: "\<forall>i. isl (script i)"
  show "waitForNotarize script u opts n tr = None"
  proof (cases "waitForNotarize script u opts n tr")
    case (Some r)
    from waitForNotarize_result [OF Some] all show ?thesis
      by (metis sum.disc(2))
  qed simp
  show "waitForNotarize_u script u opts n tr = None"
  proof (cases "waitForNotarize_u script u opts n tr")
    case (Some r)
    from waitForNotarize_u_result [OF Some] all show ?thesis
      by (metis sum.disc(2))
  qed simp
qed

theorem query_failure_retried_witness:
  "script_retry 0 = Inl (js ''Command failed'') \<and> script_retry 1 = Inl (js ''Command failed'')
   \<and> waitForNotarize script_retry (js ''u-1'') opts_apple_id 0 [] =
       Some (Inr (), 3,
             [status_query getAuthorizingArgs (js ''u-1'') opts_apple_id, Delay 30000,
              status_query getAuthorizingArgs (js ''u-1'') opts_apple_id, Delay 30000,
              status_query getAuthorizingArgs (js ''u-1'') opts_apple_id])
   \<and> waitForNotarize_u script_retry (js ''u-1'') opts_apple_id 0 [] =
       Some (Inr (), 3,
             [status_query getAuthorizingArgs_u (js ''u-1'') opts_apple_id, Delay 30000,
              status_query getAuthorizingArgs_u (js ''u-1'') opts_apple_id, Delay 30000,
              status_query getAuthorizingArgs_u (js ''u-1'') opts_apple_id])"
proof -
  have fails: "\<forall>i<2. isl (script_retry (0 + i))"
    by (simp add: script_retry_def)
  have answer: "script_retry (0 + 2) = Inr text_success"
    by (simp add: script_retry_def)
  note t = query_failure_retried [of script_retry 0 "js ''Command failed''" "js ''u-1''"
        opts_apple_id "[]" "(Inr (), 0, [])" 2 text_success]
  note c = t [THEN conjunct2, THEN conjunct2, THEN conjunct1, THEN mp]
  have "waitForNotarize script_retry (js ''u-1'') opts_apple_id 0 [] =
          Some (Inr (), 0 + 2 + 1,
                [] @ concat (replicate 2 [status_query getAuthorizingArgs (js ''u-1'') opts_apple_id,
                                          Delay 30000])
                   @ [status_query getAuthorizingArgs (js ''u-1'') opts_apple_id])
        \<and> waitForNotarize_u script_retry (js ''u-1'') opts_apple_id 0 [] =
          Some (Inr (), 0 + 2 + 1,
                [] @ concat (replicate 2 [status_query getAuthorizingArgs_u (js ''u-1'') opts_apple_id,
                                          Delay 30000])
                   @ [status_query getAuthorizingArgs_u (js ''u-1'') opts_apple_id])"
    using fails answer status_text_success by (intro c conjI)
  then show ?thesis
    by (simp add: script_retry_def numeral_2_eq_2)
qed

section \<open>Submission\<close>

lemma submit_try_resolved:
  assumes "execa (js ''xcrun'') (notarize_app_args authArgs pkgPath appId opts) = Inr stdout"
  shows "submit_try authArgs execa pkgPath appId opts =
         (case first_some (line_value False ''RequestUUID = '') (inner_lines stdout) of
            Some u \<Rightarrow> Inr u
          | None \<Rightarrow>
              Inl (SubmissionParseError
                (js ''Failed to find request UUID in output:\<newline>\<newline>'' @ stdout)))"
  using assms by (simp add: submit_try_def exec_uuid_rx split: option.splits)

lemma submit_resolved:
  assumes "execa (js ''xcrun'') (notarize_app_args authArgs pkgPath appId opts) = Inr stdout"
  shows "submit authArgs execa pkgPath appId opts =
         (case first_some (line_value False ''RequestUUID = '') (inner_lines stdout) of
            Some u \<Rightarrow> Inr u
          | None \<Rightarrow>
              Inl (SubmissionError
                (js ''Failed to upload app to Apple's notarization servers\<newline>\<newline>'' @
                 js ''Failed to find request UUID in output:\<newline>\<newline>'' @ stdout)))"
  using assms by (simp add: submit_def submit_try_def exec_uuid_rx split: option.splits)

lemma submit_rejected:
  assumes "execa (js ''xcrun'') (notarize_app_args authArgs pkgPath appId opts) = Inl m"
  shows "submit authArgs execa pkgPath appId opts =
         Inl (SubmissionError
                (js ''Failed to upload app to Apple's notarization servers\<newline>\<newline>'' @ m))"
  using assms by (simp add: submit_def submit_try_def)

lemma submit_error_is_upload_error:
  assumes "submit authArgs execa pkgPath appId opts = Inl e"
  shows "\<exists>m. e = SubmissionError
           (js ''Failed to upload app to Apple's notarization servers\<newline>\<newline>'' @ m)"
  using assms by (auto simp: submit_def split: sum.splits)

lemmas uuid_eval = uuid_rx_def lits_def js_def dots_lazy.simps line_terminator_def

text \<open>
  C4. When the upload succeeds and its output has no line \<open>RequestUUID = ...\<close>, the
  submission should fail with an error of its own, distinct from the error of a failed
  upload. The code builds that error (\<open>Failed to find request UUID in output\<close>) and throws
  it inside the \<open>try\<close> block, whose \<open>catch\<close> handler takes it for a failed upload: what
  the caller receives is the error of the failed upload, \<open>Failed to upload app to Apple's
  notarization servers\<close>, around the message of the first (\<open>submit_error_is_upload_error\<close>:
  every error of the submission is that one). The output below has no identifier line,
  and a field that the response parser reads.
\<close>

theorem missing_uuid_is_upload_error:
  "submit_try getAuthorizingArgs (\<lambda>c a. Inr stdout_no_uuid) (Str (js ''/dist/app.pkg''))
       (Str (js ''org.x.app'')) opts_api_key =
     Inl (SubmissionParseError
            (js ''Failed to find request UUID in output:\<newline>\<newline>'' @ stdout_no_uuid))
   \<and> startNotarizingPackage (\<lambda>c a. Inr stdout_no_uuid) (Str (js ''/dist/app.pkg''))
       (Str (js ''org.x.app'')) opts_api_key =
     Inl (SubmissionError
            (js ''Failed to upload app to Apple's notarization servers\<newline>\<newline>'' @
             js ''Failed to find request UUID in output:\<newline>\<newline>'' @ stdout_no_uuid))"
proof -
  have "regex_exec uuid_rx stdout_no_uuid = None"
    by (simp add: stdout_no_uuid_def uuid_eval)
  then show ?thesis
    by (simp add: startNotarizingPackage_def submit_def submit_try_def)
qed

theorem missing_uuid_is_upload_error_witness:
  "(\<forall>m. startNotarizingPackage (\<lambda>c a. Inr stdout_no_uuid) (Str (js ''/dist/app.pkg''))
          (Str (js ''org.x.app'')) opts_api_key \<noteq> Inl (SubmissionParseError m))
   \<and> uuid (parseNotarizationInfo stdout_no_uuid) = Str (js ''u-1'')"
proof -
  have "uuid (parseNotarizationInfo stdout_no_uuid) = Str (js ''u-1'')"
    by (simp add: stdout_no_uuid_def parse_eval)
  then show ?thesis
    using missing_uuid_is_upload_error by simp
qed


text \<open>
  The identifier is read from a line \<open>RequestUUID = ...\<close> that has a newline before it
  and a newline after it. The \<open>try\<close> block of the submission ends with the value of the
  first inner line of that form, and throws the error of a missing identifier when there
  is none; when the pattern matches, the text has the line between two newlines; and the
  first line and the last line of the output are not read, whatever they are.
\<close>

lemma uuid_line_between_newlines:
  "(execa (js ''xcrun'') (notarize_app_args authArgs pkgPath appId opts) = Inr stdout \<longrightarrow>
      submit_try authArgs execa pkgPath appId opts =
        (case first_some (line_value False ''RequestUUID = '') (inner_lines stdout) of
           Some u \<Rightarrow> Inr u
         | None \<Rightarrow>
             Inl (SubmissionParseError
               (js ''Failed to find request UUID in output:\<newline>\<newline>'' @ stdout))))
   \<and> (execa (js ''xcrun'') (notarize_app_args getAuthorizingArgs pkgPath appId opts) = Inr stdout \<longrightarrow>
      startNotarizingPackage execa pkgPath appId opts =
        (case first_some (line_value False ''RequestUUID = '') (inner_lines stdout) of
           Some u \<Rightarrow> Inr u
         | None \<Rightarrow>
             Inl (SubmissionError
               (js ''Failed to upload app to Apple's notarization servers\<newline>\<newline>'' @
                js ''Failed to find request UUID in output:\<newline>\<newline>'' @ stdout))))
   \<and> (execa (js ''xcrun'') (notarize_app_args getAuthorizingArgs_u pkgPath appId opts) = Inr stdout \<longrightarrow>
      startNotarizingPackage_u execa pkgPath appId opts =
        (case first_some (line_value False ''RequestUUID = '') (inner_lines stdout) of
           Some u \<Rightarrow> Inr u
         | None \<Rightarrow>
             Inl (SubmissionError
               (js ''Failed to upload app to Apple's notarization servers\<newline>\<newline>'' @
                js ''Failed to find request UUID in output:\<newline>\<newline>'' @ stdout))))
   \<and> (regex_exec uuid_rx stdout = Some u \<longrightarrow>
        (\<exists>pre post. stdout = pre @ 10 # js ''RequestUUID = '' @ u @ 10 # post))
   \<and> (10 \<notin> set l \<longrightarrow>
        regex_exec uuid_rx (l @ 10 # rest) = regex_exec uuid_rx (10 # rest)
        \<and> regex_exec uuid_rx (pre @ 10 # l) = regex_exec uuid_rx (pre @ [10])
        \<and> regex_exec uuid_rx l = None)"
proof (intro conjI impI)
  assume "execa (js ''xcrun'') (notarize_app_args authArgs pkgPath appId opts) = Inr stdout"
  then show "submit_try authArgs execa pkgPath appId opts =
        (case first_some (line_value False ''RequestUUID = '') (inner_lines stdout) of
           Some u \<Rightarrow> Inr u
         | None \<Rightarrow>
             Inl (SubmissionParseError
               (js ''Failed to find request UUID in output:\<newline>\<newline>'' @ stdout)))"
    by (rule submit_try_resolved)
next
  assume "execa (js ''xcrun'') (notarize_app_args getAuthorizingArgs pkgPath appId opts) = Inr stdout"
  then show "startNotarizingPackage execa pkgPath appId opts =
        (case first_some (line_value False ''RequestUUID = '') (inner_lines stdout) of
           Some u \<Rightarrow> Inr u
         | None \<Rightarrow>
             Inl (SubmissionError
               (js ''Failed to upload app to Apple's notarization servers\<newline>\<newline>'' @
                js ''Failed to find request UUID in output:\<newline>\<newline>'' @ stdout)))"
    unfolding startNotarizingPackage_def by (rule submit_resolved)
next
  assume "execa (js ''xcrun'') (notarize_app_args getAuthorizingArgs_u pkgPath appId opts) = Inr stdout"
  then show "startNotarizingPackage_u execa pkgPath appId opts =
        (case first_some (line_value False ''RequestUUID = '') (inner_lines stdout) of
           Some u \<Rightarrow> Inr u
         | None \<Rightarrow>
             Inl (SubmissionError
               (js ''Failed to upload app to Apple's notarization servers\<newline>\<newline>'' @
                js ''Failed to find request UUID in output:\<newline>\<newline>'' @ stdout)))"
    unfolding startNotarizingPackage_u_def by (rule submit_resolved)
next
  assume "regex_exec uuid_rx stdout = Some u"
  then have "first_some (line_value False ''RequestUUID = '') (inner_lines stdout) = Some u"
    by (simp add: exec_uuid_rx)
  then obtain x where x: "x \<in> set (inner_lines stdout)"
    and v: "line_value False ''RequestUUID = '' x = Some u"
    using first_some_Some by fastforce
  from line_value_Some [OF v] have "x = js ''RequestUUID = '' @ u" by simp
  with inner_line_delimited [OF x]
  show "\<exists>pre post. stdout = pre @ 10 # js ''RequestUUID = '' @ u @ 10 # post" by simp
next
  assume l: "10 \<notin> set l"
  show "regex_exec uuid_rx (l @ 10 # rest) = regex_exec uuid_rx (10 # rest)"
    unfolding exec_uuid_rx
    using inner_lines_first [OF l, of rest] inner_lines_first [of "[]" rest] by simp
  show "regex_exec uuid_rx (pre @ 10 # l) = regex_exec uuid_rx (pre @ [10])"
    unfolding exec_uuid_rx
    using inner_lines_last [OF l, of pre] inner_lines_last [of "[]" pre] by simp
  show "regex_exec uuid_rx l = None"
    unfolding exec_uuid_rx
    using l by (simp add: inner_lines_def split_lines_single)
qed

text \<open>
  C10. An identifier line that is the first line of the output, or its last line, is not
  found: the pattern does not match, and the \<open>try\<close> block throws the error of a missing
  identifier although the line is there. The submission should then raise that error. As
  in C4, in both files, the \<open>catch\<close> handler of the submission takes it for a failed
  upload, and the caller receives the error of a failed upload around its message.
\<close>

theorem uuid_first_or_last_line_not_found:
  "regex_exec uuid_rx stdout_uuid_first = None
   \<and> regex_exec uuid_rx stdout_uuid_last = None
   \<and> submit_try getAuthorizingArgs (\<lambda>c a. Inr stdout_uuid_first) (Str (js ''/dist/app.pkg''))
       (Str (js ''org.x.app'')) opts_api_key =
     Inl (SubmissionParseError
            (js ''Failed to find request UUID in output:\<newline>\<newline>'' @ stdout_uuid_first))
   \<and> startNotarizingPackage (\<lambda>c a. Inr stdout_uuid_first) (Str (js ''/dist/app.pkg''))
       (Str (js ''org.x.app'')) opts_api_key =
     Inl (SubmissionError
            (js ''Failed to upload app to Apple's notarization servers\<newline>\<newline>'' @
             js ''Failed to find request UUID in output:\<newline>\<newline>'' @ stdout_uuid_first))
   \<and> startNotarizingPackage_u (\<lambda>c a. Inr stdout_uuid_first) (Str (js ''/dist/app.pkg''))
       (Str (js ''org.x.app'')) opts_api_key =
     Inl (SubmissionError
            (js ''Failed to upload app to Apple's notarization servers\<newline>\<newline>'' @
             js ''Failed to find request UUID in output:\<newline>\<newline>'' @ stdout_uuid_first))
   \<and> startNotarizingPackage (\<lambda>c a. Inr stdout_uuid_last) (Str (js ''/dist/app.pkg''))
       (Str (js ''org.x.app'')) opts_api_key =
     Inl (SubmissionError
            (js ''Failed to upload app to Apple's notarization servers\<newline>\<newline>'' @
             js ''Failed to find request UUID in output:\<newline>\<newline>'' @ stdout_uuid_last))
   \<and> startNotarizingPackage_u (\<lambda>c a. Inr stdout_uuid_last) (Str (js ''/dist/app.pkg''))
       (Str (js ''org.x.app'')) opts_api_key =
     Inl (SubmissionError
            (js ''Failed to upload app to Apple's notarization servers\<newline>\<newline>'' @
             js ''Failed to find request UUID in output:\<newline>\<newline>'' @ stdout_uuid_last))"
proof -
  have a: "first_some (line_value False ''RequestUUID = '') (inner_lines stdout_uuid_first) = None"
    by (simp add: stdout_uuid_first_def inner_lines_def line_value_def js_def)
  have b: "first_some (line_value False ''RequestUUID = '') (inner_lines stdout_uuid_last) = None"
    by (simp add: stdout_uuid_last_def inner_lines_def line_value_def js_def)
  have ra: "regex_exec uuid_rx stdout_uuid_first = None"
    unfolding exec_uuid_rx by (rule a)
  have rb: "regex_exec uuid_rx stdout_uuid_last = None"
    unfolding exec_uuid_rx by (rule b)
  show ?thesis
    by (simp add: ra rb startNotarizingPackage_def startNotarizingPackage_u_def submit_def
        submit_try_def)
qed

theorem uuid_first_or_last_line_not_found_witness:
  "(\<forall>m. startNotarizingPackage (\<lambda>c a. Inr stdout_uuid_first) (Str (js ''/dist/app.pkg''))
          (Str (js ''org.x.app'')) opts_api_key \<noteq> Inl (SubmissionParseError m))
   \<and> (\<forall>m. startNotarizingPackage (\<lambda>c a. Inr stdout_uuid_last) (Str (js ''/dist/app.pkg''))
          (Str (js ''org.x.app'')) opts_api_key \<noteq> Inl (SubmissionParseError m))
   \<and> startNotarizingPackage (\<lambda>c a. Inr stdout_uuid_inner) (Str (js ''/dist/app.pkg''))
       (Str (js ''org.x.app'')) opts_api_key = Inr (js ''u-1'')"
proof -
  have c: "first_some (line_value False ''RequestUUID = '') (inner_lines stdout_uuid_inner)
           = Some (js ''u-1'')"
    by (simp add: stdout_uuid_inner_def inner_lines_def line_value_def js_def line_terminator_def)
  have "regex_exec uuid_rx stdout_uuid_inner = Some (js ''u-1'')"
    unfolding exec_uuid_rx by (rule c)
  then have inner: "startNotarizingPackage (\<lambda>c a. Inr stdout_uuid_inner) (Str (js ''/dist/app.pkg''))
       (Str (js ''org.x.app'')) opts_api_key = Inr (js ''u-1'')"
    by (simp add: startNotarizingPackage_def submit_def submit_try_def)
  show ?thesis
    using uuid_first_or_last_line_not_found inner by simp
qed

section \<open>Authorization arguments\<close>

text \<open>
  C6 as stated fails. In \<open>src/index.js\<close> the arguments of an Apple ID are the user name
  and the password only: the file reads no team identifier, so the options that
  \<open>getAuthInfo\<close> returns have none, whatever the environment has.
\<close>

theorem getAuthorizingArgs_no_provider:
  "map_sum id (\<lambda>authInfo. getAuthorizingArgs (notarizeOptions_of authInfo))
     (getAuthInfo env_apple_id) =
   Inr [Str (js ''--username''), Str (js ''me@x.org''), Str (js ''--password''), Str (js ''pw'')]"
  by (simp add: getAuthInfo_def env_apple_id_def getenv_def notarizeOptions_of_def
      getAuthorizingArgs_def js_def)

text \<open>
  C6, amended. \<open>getAuthorizingArgs\<close> returns one of two argument sets, chosen by
  \<open>appleId\<close>: for an Apple ID the user name and the password, followed in
  \<open>src/unnamed/part_000\<close> only by \<open>--asc-provider\<close> and the team identifier; otherwise the
  API key and its issuer, the same in both files. The two sets differ in their first flag.
  In both files, and for either set, the arguments of the upload are those without a team
  short name followed, when the team short name is set, by \<open>-itc_provider\<close> and that name.
\<close>

theorem authorizing_args_one_set:
  "(truthy (appleId opts) \<longrightarrow>
      getAuthorizingArgs opts =
        [Str (js ''--username''), appleId opts, Str (js ''--password''), appleIdPassword opts]
      \<and> getAuthorizingArgs_u opts =
        [Str (js ''--username''), appleId opts, Str (js ''--password''), appleIdPassword opts,
         Str (js ''--asc-provider''), appleTeamId opts])
   \<and> (\<not> truthy (appleId opts) \<longrightarrow>
      getAuthorizingArgs opts =
        [Str (js ''--apiKey''), appleApiKey opts, Str (js ''--apiIssuer''), appleApiIssuer opts]
      \<and> getAuthorizingArgs_u opts =
        [Str (js ''--apiKey''), appleApiKey opts, Str (js ''--apiIssuer''), appleApiIssuer opts])
   \<and> (hd (getAuthorizingArgs opts) = Str (js ''--username''))
        \<noteq> (hd (getAuthorizingArgs opts) = Str (js ''--apiKey''))
   \<and> (hd (getAuthorizingArgs_u opts) = Str (js ''--username''))
        \<noteq> (hd (getAuthorizingArgs_u opts) = Str (js ''--apiKey''))
   \<and> notarize_app_args getAuthorizingArgs pkgPath appId opts =
       notarize_app_args getAuthorizingArgs pkgPath appId (opts\<lparr>teamShortName := Undefined\<rparr>)
       @ (if truthy (teamShortName opts)
          then [Str (js ''-itc_provider''), teamShortName opts] else [])
   \<and> notarize_app_args getAuthorizingArgs_u pkgPath appId opts =
       notarize_app_args getAuthorizingArgs_u pkgPath appId (opts\<lparr>teamShortName := Undefined\<rparr>)
       @ (if truthy (teamShortName opts)
          then [Str (js ''-itc_provider''), teamShortName opts] else [])"
proof -
  have ne: "js ''--username'' \<noteq> js ''--apiKey''" by (simp add: js_def)
  show ?thesis
    using ne by (simp add: getAuthorizingArgs_def getAuthorizingArgs_u_def notarize_app_args_def)
qed

theorem authorizing_args_one_set_witness:
  "getAuthorizingArgs_u opts_apple_id =
     [Str (js ''--username''), Str (js ''me@x.org''), Str (js ''--password''), Str (js ''pw''),
      Str (js ''--asc-provider''), Str (js ''TEAM'')]
   \<and> getAuthorizingArgs opts_api_key =
     [Str (js ''--apiKey''), Str (js ''KEY123''), Str (js ''--apiIssuer''), Str (js ''issuer-1'')]
   \<and> notarize_app_args getAuthorizingArgs (Str (js ''/dist/app.pkg'')) (Str (js ''org.x.app''))
       opts_api_key =
     [Str (js ''altool''), Str (js ''--notarize-app''), Str (js ''--primary-bundle-id''),
      Str (js ''org.x.app''), Str (js ''--file''), Str (js ''/dist/app.pkg''),
      Str (js ''--apiKey''), Str (js ''KEY123''), Str (js ''--apiIssuer''), Str (js ''issuer-1''),
      Str (js ''-itc_provider''), Str (js ''TSN'')]"
proof -
  have a: "truthy (appleId opts_apple_id)" "\<not> truthy (appleId opts_api_key)"
    "truthy (teamShortName opts_api_key)"
    by (simp_all add: opts_apple_id_def opts_api_key_def js_def)
  have b: "notarize_app_args getAuthorizingArgs (Str (js ''/dist/app.pkg'')) (Str (js ''org.x.app''))
             (opts_api_key\<lparr>teamShortName := Undefined\<rparr>) =
           [Str (js ''altool''), Str (js ''--notarize-app''), Str (js ''--primary-bundle-id''),
            Str (js ''org.x.app''), Str (js ''--file''), Str (js ''/dist/app.pkg''),
            Str (js ''--apiKey''), Str (js ''KEY123''), Str (js ''--apiIssuer''), Str (js ''issuer-1'')]"
    by (simp add: notarize_app_args_def getAuthorizingArgs_def opts_api_key_def)
  show ?thesis
    using authorizing_args_one_set [of opts_apple_id "Str (js ''/dist/app.pkg'')" "Str (js ''org.x.app'')"]
      authorizing_args_one_set [of opts_api_key "Str (js ''/dist/app.pkg'')" "Str (js ''org.x.app'')"]
      a b
    by (simp add: opts_apple_id_def opts_api_key_def)
qed

section \<open>Signing\<close>

lemma signPackage_string:
  "signPackage execa (StringArg s) fs =
     (case execa (js ''productsign'') [Str (js ''--sign''), Undefined, Undefined, Undefined] fs of
        (Inl m, fs') \<Rightarrow> (Inl (SigningError Undefined m), fs')
      | (Inr out, fs') \<Rightarrow> (Inr (), fs'))"
  by (simp add: signPackage_def productsign_args_def get_property_def
      split: prod.splits sum.splits)

lemma signPackage_object:
  "signPackage productsign_tool
     (Object [(''productSignCertificateName'', Str (js ''Developer ID Installer: X'')),
              (''pkgPath'', Str (js ''/dist/app.pkg'')),
              (''signedPath'', Str (js ''/dist/app-signed.pkg''))]) files_one_pkg =
   (Inr (), files_one_pkg(js ''/dist/app-signed.pkg'' := Some [83, 1, 2, 3]))"
  by (simp add: signPackage_def productsign_args_def get_property_def productsign_tool_def
      files_one_pkg_def js_def)

lemma sign_and_swap_success:
  assumes tool: "execa (js ''productsign'') (productsign_args (StringArg certificateName)) fs
                 = (Inr out, fs1)"
    and orig: "fs1 pkgPath = Some original" and signed: "fs1 signedPath = Some signed"
    and dir: "path_parse pkgPath = (dir, name)"
    and sp: "signedPath = path_resolve dir (name @ js ''-signed.pkg'')"
    and up: "unsignedPath = path_resolve dir (name @ js ''-unsigned.pkg'')"
    and distinct: "pkgPath \<noteq> unsignedPath" "signedPath \<noteq> unsignedPath" "signedPath \<noteq> pkgPath"
  shows "sign_and_swap execa path_parse path_resolve certificateName pkgPath fs =
         (Inr (), fs1(unsignedPath := Some original, signedPath := None, pkgPath := Some signed))"
proof -
  have one: "renameSync pkgPath unsignedPath fs1 =
             Inr ((fs1(pkgPath := None))(unsignedPath := Some original))"
    using orig by (simp add: renameSync_def)
  have two: "renameSync signedPath pkgPath ((fs1(pkgPath := None))(unsignedPath := Some original)) =
             Inr ((((fs1(pkgPath := None))(unsignedPath := Some original))(signedPath := None))
                    (pkgPath := Some signed))"
    using signed distinct by (simp add: renameSync_def)
  have fs: "(((fs1(pkgPath := None))(unsignedPath := Some original))(signedPath := None))
              (pkgPath := Some signed)
            = fs1(unsignedPath := Some original, signedPath := None, pkgPath := Some signed)"
    using distinct by (auto simp: fun_eq_iff)
  show ?thesis
    using tool dir one two fs
    by (simp add: sign_and_swap_def signPackage_def sp [symmetric] up [symmetric])
qed

text \<open>
  C2. The signing tool should be run with the certificate name, the path of the package
  and the path of the signed copy, and the two renames should then put the signed copy at
  the path of the package. The renames do that to whatever files the tool leaves
  (\<open>sign_and_swap_success\<close>). But \<open>module.exports\<close> calls \<open>signPackage\<close> with three
  arguments, and \<open>signPackage\<close> destructures one object: its parameter is the certificate
  name, a string, and the three names read from it are \<open>undefined\<close>. The tool is run with
  \<open>--sign\<close> and three times \<open>undefined\<close>. A tool that follows its manual fails on that,
  nothing is signed and nothing is renamed.
\<close>

theorem sign_and_swap_undefined_arguments:
  "productsign_args (StringArg (js ''Developer ID Installer: X'')) =
     [Str (js ''--sign''), Undefined, Undefined, Undefined]
   \<and> sign_and_swap productsign_tool parse_app_pkg resolve_in_dir
       (js ''Developer ID Installer: X'') (js ''/dist/app.pkg'') files_one_pkg =
     (Inl (SigningError Undefined (js ''Command failed'')), files_one_pkg)"
  by (simp add: sign_and_swap_def signPackage_string productsign_tool_def
      productsign_args_def get_property_def)

theorem sign_and_swap_undefined_arguments_witness:
  "fst (sign_and_swap productsign_tool parse_app_pkg resolve_in_dir
       (js ''Developer ID Installer: X'') (js ''/dist/app.pkg'') files_one_pkg) \<noteq> Inr ()
   \<and> snd (sign_and_swap productsign_tool parse_app_pkg resolve_in_dir
       (js ''Developer ID Installer: X'') (js ''/dist/app.pkg'') files_one_pkg)
       (js ''/dist/app-unsigned.pkg'') = None
   \<and> snd (sign_and_swap productsign_tool parse_app_pkg resolve_in_dir
       (js ''Developer ID Installer: X'') (js ''/dist/app.pkg'') files_one_pkg)
       (js ''/dist/app.pkg'') = Some [1, 2, 3]"
  using sign_and_swap_undefined_arguments
  by (simp add: files_one_pkg_def js_def)

section \<open>Response parser\<close>

lemma matchToProperty_field:
  assumes "10 \<notin> set (js key)" "key \<noteq> []" "of_char (hd key) \<noteq> (32::nat)"
  shows "matchToProperty t (field_rx key) modifier =
         (case field_value key t of
            None \<Rightarrow> Undefined
          | Some v \<Rightarrow> (case modifier of None \<Rightarrow> Str v | Some f \<Rightarrow> f v))"
  by (simp add: matchToProperty_def exec_field_rx [OF assms] field_value_def)

lemma field_value_Some:
  assumes "field_value key t = Some v"
  shows "v \<noteq> [] \<and> \<not> list_ex line_terminator v"
proof -
  from assms obtain l where "line_value True key l = Some v"
    unfolding field_value_def using first_some_Some by fastforce
  from line_value_Some [OF this] show ?thesis by simp
qed

lemma parseNotarizationInfo_fields:
  "parseNotarizationInfo t =
     \<lparr>uuid = (case field_value ''RequestUUID: '' t of None \<Rightarrow> Undefined | Some v \<Rightarrow> Str v),
      date = (case field_value ''Date: '' t of None \<Rightarrow> Undefined | Some v \<Rightarrow> DateObj v),
      status = (case field_value ''Status: '' t of None \<Rightarrow> Undefined | Some v \<Rightarrow> Str v),
      logFileUrl = (case field_value ''LogFileURL: '' t of
                      None \<Rightarrow> Undefined
                    | Some v \<Rightarrow> if v = js ''(null)'' then Null else Str v),
      statusCode = (case field_value ''Status Code: '' t of
                      None \<Rightarrow> Undefined
                    | Some v \<Rightarrow> parseInt10 v),
      statusMessage = (case field_value ''Status Message: '' t of
                         None \<Rightarrow> Undefined
                       | Some v \<Rightarrow> Str v)\<rparr>"
proof -
  have 1: "matchToProperty t (field_rx ''RequestUUID: '') None =
           (case field_value ''RequestUUID: '' t of None \<Rightarrow> Undefined | Some v \<Rightarrow> Str v)"
    by (subst matchToProperty_field) (simp_all add: js_def split: option.splits)
  have 2: "matchToProperty t (field_rx ''Date: '') (Some DateObj) =
           (case field_value ''Date: '' t of None \<Rightarrow> Undefined | Some v \<Rightarrow> DateObj v)"
    by (subst matchToProperty_field) (simp_all add: js_def split: option.splits)
  have 3: "matchToProperty t (field_rx ''Status: '') None =
           (case field_value ''Status: '' t of None \<Rightarrow> Undefined | Some v \<Rightarrow> Str v)"
    by (subst matchToProperty_field) (simp_all add: js_def split: option.splits)
  have 4: "matchToProperty t (field_rx ''LogFileURL: '') None =
           (case field_value ''LogFileURL: '' t of None \<Rightarrow> Undefined | Some v \<Rightarrow> Str v)"
    by (subst matchToProperty_field) (simp_all add: js_def split: option.splits)
  have 5: "matchToProperty t (field_rx ''Status Code: '') (Some parseInt10) =
           (case field_value ''Status Code: '' t of None \<Rightarrow> Undefined | Some v \<Rightarrow> parseInt10 v)"
    by (subst matchToProperty_field) (simp_all add: js_def split: option.splits)
  have 6: "matchToProperty t (field_rx ''Status Message: '') None =
           (case field_value ''Status Message: '' t of None \<Rightarrow> Undefined | Some v \<Rightarrow> Str v)"
    by (subst matchToProperty_field) (simp_all add: js_def split: option.splits)
  show ?thesis
    unfolding parseNotarizationInfo_def 1 2 3 4 5 6
    by (simp add: Let_def split: option.splits)
qed

lemma statusMessage_nonempty:
  assumes "statusMessage (parseNotarizationInfo t) = Str m"
  shows "m \<noteq> []"
proof -
  from assms have "field_value ''Status Message: '' t = Some m"
    by (simp add: parseNotarizationInfo_fields split: option.splits)
  from field_value_Some [OF this] show ?thesis by simp
qed

text \<open>
  In the text itself: a line of the key, indented by spaces, with a value that is not empty
  and has no line terminator, between two newlines, gives the value of the field when no
  line before it does.
\<close>

lemma first_some_append:
  "first_some f (xs @ ys) = (case first_some f xs of Some y \<Rightarrow> Some y | None \<Rightarrow> first_some f ys)"
  by (induction xs) (auto split: option.splits)

lemma inner_lines_line:
  assumes "10 \<notin> set l"
  shows "inner_lines (pre @ 10 # l @ 10 # post) =
         inner_lines (pre @ [10]) @ l # butlast (split_lines post)"
proof -
  obtain x xs where sp: "split_lines pre = x # xs"
    using split_lines_nonempty [of pre] by (cases "split_lines pre") auto
  obtain y ys where sq: "split_lines post = y # ys"
    using split_lines_nonempty [of post] by (cases "split_lines post") auto
  have a: "split_lines (pre @ 10 # l @ 10 # post) = split_lines pre @ l # split_lines post"
    using assms by (simp add: split_lines_append split_lines_single)
  have b: "split_lines (pre @ [10]) = split_lines pre @ [[]]"
    using split_lines_append [of pre "[]"] by simp
  show ?thesis
    unfolding inner_lines_def a b by (simp add: sp sq butlast_append)
qed

lemma line_value_indented:
  assumes "key \<noteq> []" "of_char (hd key) \<noteq> (32::nat)" "v \<noteq> []" "\<not> list_ex line_terminator v"
  shows "line_value True key (replicate k 32 @ js key @ v) = Some v"
proof -
  obtain c cs where key: "key = c # cs" using assms(1) by (cases key) auto
  have "dropWhile (\<lambda>x. x = 32) (replicate k 32 @ js key @ v) = js key @ v"
    using assms(2) key by (induction k) (auto simp: js_def)
  then show ?thesis
    using assms(3,4) by (simp add: line_value_def)
qed

lemma field_value_line:
  assumes "key \<noteq> []" "of_char (hd key) \<noteq> (32::nat)" "10 \<notin> set (js key)"
    and "v \<noteq> []" "\<not> list_ex line_terminator v"
    and "field_value key (pre @ [10]) = None"
  shows "field_value key (pre @ 10 # replicate k 32 @ js key @ v @ 10 # post) = Some v"
proof -
  have v: "10 \<notin> set v"
    using assms(5) by (auto simp: list_ex_iff line_terminator_def)
  have l: "10 \<notin> set (replicate k 32 @ js key @ v)"
    using v assms(3) by auto
  have "field_value key (pre @ 10 # (replicate k 32 @ js key @ v) @ 10 # post) = Some v"
    unfolding field_value_def inner_lines_line [OF l]
    using assms(6) line_value_indented [OF assms(1,2,4,5), of k]
    by (simp add: first_some_append field_value_def)
  then show ?thesis by simp
qed

text \<open>The last line of a text is not read.\<close>

lemma field_value_last:
  "10 \<notin> set l \<Longrightarrow> field_value key (pre @ 10 # l) = field_value key (pre @ [10])"
  using inner_lines_last [of l pre] inner_lines_last [of "[]" pre]
  by (simp add: field_value_def)

lemmas field_eval = field_value_def inner_lines_def line_value_def js_def line_terminator_def

section \<open>Number.parseInt\<close>

lemma digits_value_snoc: "digits_value (z @ [d]) = 10 * digits_value z + (int d - 48)"
  by (simp add: digits_value_def)

lemma decimal_nonempty: "decimal n \<noteq> []"
  by (subst decimal.simps) simp

lemma decimal_digits: "c \<in> set (decimal n) \<Longrightarrow> is_digit c"
proof (induction n arbitrary: c rule: decimal.induct)
  case (1 n)
  show ?case
  proof (cases "n < 10")
    case True
    with "1.prems" show ?thesis
      by (subst (asm) decimal.simps) (simp add: is_digit_def)
  next
    case False
    have "n mod 10 < 10" by simp
    then have d: "is_digit (48 + n mod 10)" unfolding is_digit_def by linarith
    from "1.prems" False have "c \<in> set (decimal (n div 10)) \<or> c = 48 + n mod 10"
      by (subst (asm) decimal.simps) auto
    with "1.IH" [OF False] d show ?thesis by auto
  qed
qed

lemma digits_value_decimal: "digits_value (decimal n) = int n"
proof (induction n rule: decimal.induct)
  case (1 n)
  show ?case
  proof (cases "n < 10")
    case True
    then show ?thesis
      by (subst decimal.simps) (simp add: digits_value_def)
  next
    case False
    have "digits_value (decimal n) = 10 * digits_value (decimal (n div 10)) + int (n mod 10)"
      using False by (subst decimal.simps) (simp add: digits_value_snoc)
    also have "\<dots> = 10 * int (n div 10) + int (n mod 10)"
      using "1.IH" [OF False] by simp
    also have "\<dots> = int n"
      by (simp add: zdiv_int zmod_int)
    finally show ?thesis .
  qed
qed

lemma is_digit_not_whitespace: "is_digit c \<Longrightarrow> \<not> str_whitespace c"
  by (auto simp: is_digit_def str_whitespace_def)

lemma is_digit_not_sign: "is_digit c \<Longrightarrow> c \<noteq> 43 \<and> c \<noteq> 45"
  by (auto simp: is_digit_def)

lemma takeWhile_decimal:
  assumes "rest = [] \<or> \<not> is_digit (hd rest)"
  shows "takeWhile is_digit (decimal n @ rest) = decimal n"
proof -
  have "takeWhile is_digit rest = []"
    using assms by (cases rest) auto
  then show ?thesis
    using decimal_digits by (simp add: takeWhile_append2)
qed

lemma parseInt10_unsigned:
  assumes "rest = [] \<or> \<not> is_digit (hd rest)"
  shows "parseInt10 (decimal n @ rest) = number_of_int (int n)"
proof -
  obtain c cs where d: "decimal n = c # cs"
    using decimal_nonempty [of n] by (cases "decimal n") auto
  then have c: "is_digit c"
    using decimal_digits [of c n] by simp
  have tw: "takeWhile is_digit (c # cs @ rest) = c # cs"
    using takeWhile_decimal [OF assms, of n] d by simp
  have dv: "digits_value (c # cs) = int n"
    using digits_value_decimal [of n] d by simp
  show ?thesis
    unfolding d parseInt10_def
    using is_digit_not_whitespace [OF c] is_digit_not_sign [OF c] tw dv
    by (simp del: takeWhile.simps)
qed

lemma parseInt10_negative:
  assumes "rest = [] \<or> \<not> is_digit (hd rest)"
  shows "parseInt10 (45 # decimal n @ rest) = number_of_int (- int n)"
proof -
  obtain c cs where d: "decimal n = c # cs"
    using decimal_nonempty [of n] by (cases "decimal n") auto
  have tw: "takeWhile is_digit (c # cs @ rest) = c # cs"
    using takeWhile_decimal [OF assms, of n] d by simp
  have dv: "digits_value (c # cs) = int n"
    using digits_value_decimal [of n] d by simp
  have ws: "\<not> str_whitespace 45" by (simp add: str_whitespace_def)
  show ?thesis
    unfolding d parseInt10_def
    using ws tw dv by (simp del: takeWhile.simps)
qed

lemma parseInt10_whitespace:
  "str_whitespace c \<Longrightarrow> parseInt10 (c # s) = parseInt10 s"
  by (simp add: parseInt10_def)

lemma parseInt10_no_digit:
  assumes "\<forall>c \<in> set s. \<not> is_digit c"
  shows "parseInt10 s = NaN"
proof -
  let ?S = "dropWhile str_whitespace s"
  let ?S' = "case ?S of c # r \<Rightarrow> if c = 43 \<or> c = 45 then r else ?S | [] \<Rightarrow> ?S"
  have "set ?S \<subseteq> set s" by (rule set_dropWhileD [THEN subsetI])
  moreover have "set ?S' \<subseteq> set ?S"
    by (auto split: list.splits if_splits simp del: dropWhile_eq_Nil_conv)
  ultimately have "\<forall>c \<in> set ?S'. \<not> is_digit c" using assms by blast
  then have "takeWhile is_digit ?S' = []"
    by (cases ?S') auto
  then show ?thesis
    by (simp add: parseInt10_def Let_def)
qed

lemma parseInt10_defined: "parseInt10 s \<noteq> Undefined"
  by (simp add: parseInt10_def Let_def number_of_int_def round_to_double_def)

text \<open>Beyond \<open>2 ^ 53\<close>: \<open>2 ^ 53 + 1\<close> is rounded to \<open>2 ^ 53\<close>.\<close>

lemma number_of_int_rounds:
  "number_of_int 9007199254740993 = Num 9007199254740992"
  by code_simp

text \<open>
  C5 as stated fails. A status code that is no number: the field is there, and it is
  \<open>NaN\<close>.
\<close>

theorem status_code_abc_is_NaN:
  "statusCode (parseNotarizationInfo text_code_abc) = NaN
   \<and> statusCode (parseNotarizationInfo text_code_abc) \<noteq> Undefined"
  by (simp add: text_code_abc_def parse_eval parseInt10_def str_whitespace_def is_digit_def)

text \<open>
  C5, amended. The parser reads the status code from the first line \<open>Status Code:\<close> that
  has a newline before it and a newline after it and whose value is not empty and has no
  line terminator. When a text has such a line, with value \<open>v\<close>, the status code is
  \<open>Number.parseInt(v, 10)\<close> and the field is not absent: it is \<open>NaN\<close> when \<open>v\<close> has no
  decimal digit, and it is the number \<open>n\<close> when \<open>v\<close> is the base-10 numeral of \<open>n\<close>,
  alone or followed by something that is not a digit, for \<open>n\<close> up to \<open>2 ^ 53\<close>. When a
  text has no such line the field is absent; the last line of a text, which has no newline
  after it, is never read. The other five fields are read from their own lines, whatever
  the status code is.
\<close>

theorem status_code_field:
  "(field_value ''Status Code: '' t = None \<longrightarrow>
      statusCode (parseNotarizationInfo t) = Undefined)
   \<and> (field_value ''Status Code: '' t = Some v \<longrightarrow>
      statusCode (parseNotarizationInfo t) = parseInt10 v
      \<and> statusCode (parseNotarizationInfo t) \<noteq> Undefined
      \<and> ((\<forall>c \<in> set v. \<not> is_digit c) \<longrightarrow> statusCode (parseNotarizationInfo t) = NaN)
      \<and> (v = decimal n @ rest \<and> (rest = [] \<or> \<not> is_digit (hd rest)) \<and> n \<le> 2 ^ 53 \<longrightarrow>
           statusCode (parseNotarizationInfo t) = Num (int n)))
   \<and> (10 \<notin> set l \<longrightarrow>
      statusCode (parseNotarizationInfo (pre @ 10 # l)) =
      statusCode (parseNotarizationInfo (pre @ [10])))
   \<and> uuid (parseNotarizationInfo t) =
       (case field_value ''RequestUUID: '' t of None \<Rightarrow> Undefined | Some x \<Rightarrow> Str x)
   \<and> date (parseNotarizationInfo t) =
       (case field_value ''Date: '' t of None \<Rightarrow> Undefined | Some x \<Rightarrow> DateObj x)
   \<and> status (parseNotarizationInfo t) =
       (case field_value ''Status: '' t of None \<Rightarrow> Undefined | Some x \<Rightarrow> Str x)
   \<and> logFileUrl (parseNotarizationInfo t) =
       (case field_value ''LogFileURL: '' t of
          None \<Rightarrow> Undefined
        | Some x \<Rightarrow> if x = js ''(null)'' then Null else Str x)
   \<and> statusMessage (parseNotarizationInfo t) =
       (case field_value ''Status Message: '' t of None \<Rightarrow> Undefined | Some x \<Rightarrow> Str x)"
proof (intro conjI impI)
  show "statusCode (parseNotarizationInfo t) = Undefined"
    if "field_value ''Status Code: '' t = None"
    using that by (simp add: parseNotarizationInfo_fields)
next
  assume v: "field_value ''Status Code: '' t = Some v"
  show code: "statusCode (parseNotarizationInfo t) = parseInt10 v"
    using v by (simp add: parseNotarizationInfo_fields)
  show "statusCode (parseNotarizationInfo t) \<noteq> Undefined"
    using code parseInt10_defined by simp
  show "statusCode (parseNotarizationInfo t) = NaN" if "\<forall>c \<in> set v. \<not> is_digit c"
    using code parseInt10_no_digit [OF that] by simp
  show "statusCode (parseNotarizationInfo t) = Num (int n)"
    if "v = decimal n @ rest \<and> (rest = [] \<or> \<not> is_digit (hd rest)) \<and> n \<le> 2 ^ 53"
  proof -
    from that have "parseInt10 v = number_of_int (int n)"
      using parseInt10_unsigned [of rest n] by simp
    moreover have "\<bar>int n\<bar> \<le> 2 ^ 53"
      using that by (metis abs_of_nat of_nat_le_iff of_nat_numeral of_nat_power)
    ultimately show ?thesis
      using code by (simp add: number_of_int_def)
  qed
next
  assume l: "10 \<notin> set l"
  have "field_value ''Status Code: '' (pre @ 10 # l) = field_value ''Status Code: '' (pre @ [10])"
    by (rule field_value_last [OF l])
  then show "statusCode (parseNotarizationInfo (pre @ 10 # l)) =
      statusCode (parseNotarizationInfo (pre @ [10]))"
    by (simp add: parseNotarizationInfo_fields)
qed (simp_all add: parseNotarizationInfo_fields)

theorem status_code_field_witness:
  "field_value ''Status Code: '' text_code_abc = Some (js ''abc'')
   \<and> statusCode (parseNotarizationInfo text_code_abc) = NaN
   \<and> status (parseNotarizationInfo text_code_abc) = Str (js ''invalid'')
   \<and> field_value ''Status Code: '' text_invalid = Some (decimal 2)
   \<and> statusCode (parseNotarizationInfo text_invalid) = Num 2
   \<and> statusMessage (parseNotarizationInfo text_invalid) = Str (js ''Package Invalid'')
   \<and> field_value ''Status Code: '' text_code_last = None
   \<and> statusCode (parseNotarizationInfo text_code_last) = Undefined
   \<and> status (parseNotarizationInfo text_code_last) = Str (js ''invalid'')"
proof -
  have a: "field_value ''Status Code: '' text_code_abc = Some (js ''abc'')"
    by (simp add: text_code_abc_def field_eval)
  have a': "field_value ''Status: '' text_code_abc = Some (js ''invalid'')"
    by (simp add: text_code_abc_def field_eval)
  have nd: "\<forall>c \<in> set (js ''abc''). \<not> is_digit c"
    by (simp add: js_def is_digit_def)
  have d2: "decimal 2 = js ''2''"
    by (subst decimal.simps) (simp add: js_def)
  have b: "field_value ''Status Code: '' text_invalid = Some (decimal 2)"
    unfolding d2 by (simp add: text_invalid_def field_eval)
  have b': "field_value ''Status Message: '' text_invalid = Some (js ''Package Invalid'')"
    by (simp add: text_invalid_def field_eval)
  have c: "field_value ''Status Code: '' text_code_last = None"
    by (simp add: text_code_last_def field_eval)
  have c': "field_value ''Status: '' text_code_last = Some (js ''invalid'')"
    by (simp add: text_code_last_def field_eval)
  have le: "(2::nat) \<le> 2 ^ 53" by simp
  from status_code_field [of text_code_abc "js ''abc''" 0 "[]" "[]" "[]"] a a' nd
  have 1: "statusCode (parseNotarizationInfo text_code_abc) = NaN
           \<and> status (parseNotarizationInfo text_code_abc) = Str (js ''invalid'')"
    by auto
  from status_code_field [of text_invalid "decimal 2" 2 "[]" "[]" "[]"] b b' le
  have 2: "statusCode (parseNotarizationInfo text_invalid) = Num 2
           \<and> statusMessage (parseNotarizationInfo text_invalid) = Str (js ''Package Invalid'')"
    by auto
  from status_code_field [of text_code_last "[]" 0 "[]" "[]" "[]"] c c'
  have 3: "statusCode (parseNotarizationInfo text_code_last) = Undefined
           \<and> status (parseNotarizationInfo text_code_last) = Str (js ''invalid'')"
    by auto
  from a b c 1 2 3 show ?thesis by simp
qed

text \<open>
  C7 as stated fails. The date of the record is the object \<open>new Date(d)\<close>, not the text
  \<open>d\<close> of the line.
\<close>

theorem date_is_a_Date:
  "date (parseNotarizationInfo text_all_six) = DateObj (js ''2019-05-28 13:47:29 +0000'')
   \<and> date (parseNotarizationInfo text_all_six) \<noteq> Str (js ''2019-05-28 13:47:29 +0000'')"
proof -
  have "field_value ''Date: '' text_all_six = Some (js ''2019-05-28 13:47:29 +0000'')"
    by (simp add: text_all_six_def field_eval)
  then show ?thesis
    by (simp add: parseNotarizationInfo_fields)
qed

text \<open>
  C7, amended. When a text has a line for each of the six fields, each with a value that is
  not empty and has no line terminator, the parser returns the record of these values:
  the request identifier, the status and the status message as the texts of their lines,
  the date as the \<open>Date\<close> object built from the text of its line, the status code as the
  number whose base-10 numeral the line has (up to \<open>2 ^ 53\<close>), and the log URL as the
  text of its line, or \<open>null\<close> when that text is \<open>(null)\<close>.
\<close>

theorem all_six_fields:
  "field_value ''RequestUUID: '' t = Some u \<and> field_value ''Date: '' t = Some d
   \<and> field_value ''Status: '' t = Some s \<and> field_value ''LogFileURL: '' t = Some l
   \<and> field_value ''Status Code: '' t = Some (decimal n) \<and> n \<le> 2 ^ 53
   \<and> field_value ''Status Message: '' t = Some m \<longrightarrow>
   parseNotarizationInfo t =
     \<lparr>uuid = Str u, date = DateObj d, status = Str s,
      logFileUrl = (if l = js ''(null)'' then Null else Str l),
      statusCode = Num (int n), statusMessage = Str m\<rparr>"
proof
  assume a: "field_value ''RequestUUID: '' t = Some u \<and> field_value ''Date: '' t = Some d
   \<and> field_value ''Status: '' t = Some s \<and> field_value ''LogFileURL: '' t = Some l
   \<and> field_value ''Status Code: '' t = Some (decimal n) \<and> n \<le> 2 ^ 53
   \<and> field_value ''Status Message: '' t = Some m"
  have "parseInt10 (decimal n) = number_of_int (int n)"
    using parseInt10_unsigned [of "[]" n] by simp
  moreover have "\<bar>int n\<bar> \<le> 2 ^ 53"
    using a by (metis abs_of_nat of_nat_le_iff of_nat_numeral of_nat_power)
  ultimately have "parseInt10 (decimal n) = Num (int n)"
    by (simp add: number_of_int_def)
  with a show "parseNotarizationInfo t =
     \<lparr>uuid = Str u, date = DateObj d, status = Str s,
      logFileUrl = (if l = js ''(null)'' then Null else Str l),
      statusCode = Num (int n), statusMessage = Str m\<rparr>"
    by (simp add: parseNotarizationInfo_fields)
qed

theorem all_six_fields_witness:
  "parseNotarizationInfo text_all_six =
     \<lparr>uuid = Str (js ''u-1''), date = DateObj (js ''2019-05-28 13:47:29 +0000''),
      status = Str (js ''invalid''), logFileUrl = Null, statusCode = Num 2,
      statusMessage = Str (js ''Package Invalid'')\<rparr>"
proof -
  have d2: "decimal 2 = js ''2''"
    by (subst decimal.simps) (simp add: js_def)
  have f: "field_value ''RequestUUID: '' text_all_six = Some (js ''u-1'')"
    "field_value ''Date: '' text_all_six = Some (js ''2019-05-28 13:47:29 +0000'')"
    "field_value ''Status: '' text_all_six = Some (js ''invalid'')"
    "field_value ''LogFileURL: '' text_all_six = Some (js ''(null)'')"
    "field_value ''Status Code: '' text_all_six = Some (decimal 2)"
    "field_value ''Status Message: '' text_all_six = Some (js ''Package Invalid'')"
    unfolding d2 by (simp_all add: text_all_six_def field_eval)
  have le: "(2::nat) \<le> 2 ^ 53" by simp
  show ?thesis
    using all_six_fields [of text_all_six "js ''u-1''" "js ''2019-05-28 13:47:29 +0000''"
        "js ''invalid''" "js ''(null)''" 2 "js ''Package Invalid''"] f le
    by simp
qed

section \<open>Rejection\<close>

text \<open>
  C8 as stated fails. An answer with status invalid and status code 0: the error does not
  have the code, it has \<open>No Code\<close>, because \<open>0 || 'No Code'\<close> is \<open>'No Code'\<close>.
\<close>

theorem status_code_zero_not_carried:
  "statusCode (parseNotarizationInfo text_invalid_zero) = Num 0
   \<and> waitForNotarize (\<lambda>n. Inr text_invalid_zero) (js ''u-1'') opts_apple_id 0 [] =
       Some (Inl (NotarizationRejected (Str (js ''No Code'')) (Str (js ''m'')) Undefined), 1,
             [status_query getAuthorizingArgs (js ''u-1'') opts_apple_id])
   \<and> waitForNotarize_u (\<lambda>n. Inr text_invalid_zero) (js ''u-1'') opts_apple_id 0 [] =
       Some (Inl (NotarizationRejected (Str (js ''No Code'')) (Str (js ''m'')) Undefined), 1,
             [status_query getAuthorizingArgs_u (js ''u-1'') opts_apple_id])"
proof -
  have d0: "decimal 0 = js ''0''"
    by (subst decimal.simps) (simp add: js_def)
  have f: "field_value ''RequestUUID: '' text_invalid_zero = None"
    "field_value ''Date: '' text_invalid_zero = None"
    "field_value ''Status: '' text_invalid_zero = Some (js ''invalid'')"
    "field_value ''LogFileURL: '' text_invalid_zero = None"
    "field_value ''Status Code: '' text_invalid_zero = Some (decimal 0)"
    "field_value ''Status Message: '' text_invalid_zero = Some (js ''m'')"
    unfolding d0 by (simp_all add: text_invalid_zero_def field_eval)
  have p: "parseInt10 (decimal 0) = Num 0"
    using parseInt10_unsigned [of "[]" 0] by (simp add: number_of_int_def)
  have info: "parseNotarizationInfo text_invalid_zero =
     \<lparr>uuid = Undefined, date = Undefined, status = Str (js ''invalid''), logFileUrl = Undefined,
      statusCode = Num 0, statusMessage = Str (js ''m'')\<rparr>"
    by (simp add: parseNotarizationInfo_fields f p)
  have fin: "final_checks (parseNotarizationInfo text_invalid_zero) =
     Inl (NotarizationRejected (Str (js ''No Code'')) (Str (js ''m'')) Undefined)"
    unfolding info by (simp add: final_checks_def js_or_def) (simp add: js_def)
  show ?thesis
    using waitForNotarize_final [of "\<lambda>n. Inr text_invalid_zero" 0 text_invalid_zero
        "js ''u-1''" opts_apple_id "[]"]
      waitForNotarize_u_final [of "\<lambda>n. Inr text_invalid_zero" 0 text_invalid_zero
        "js ''u-1''" opts_apple_id "[]"]
    by (simp add: fin) (simp add: info)
qed

text \<open>
  C8, amended. In both files, when the answer of a query parses to status invalid, the
  poller ends with the rejection error, after that query and without a wait; the error has
  \<open>statusCode || 'No Code'\<close>, \<open>statusMessage || 'No Message'\<close> and the log URL, so it
  carries the parsed status code when that is a number other than 0, and the parsed
  message when there is one. When the status is none of in progress, success and invalid,
  the poller ends with the error of an unrecognized status, which carries the status as
  parsed. In \<open>src/index.js\<close> an error of the awaited call, after in progress, is the error
  of the caller.
\<close>

theorem rejected_or_unrecognized:
  "script n = Inr out \<and> info = parseNotarizationInfo out \<longrightarrow>
     (status info = Str (js ''invalid'') \<longrightarrow>
        waitForNotarize script u opts n tr =
          Some (Inl (NotarizationRejected
                       (js_or (statusCode info) (Str (js ''No Code'')))
                       (js_or (statusMessage info) (Str (js ''No Message'')))
                       (logFileUrl info)),
                Suc n, tr @ [status_query getAuthorizingArgs u opts])
        \<and> waitForNotarize_u script u opts n tr =
          Some (Inl (NotarizationRejected
                       (js_or (statusCode info) (Str (js ''No Code'')))
                       (js_or (statusMessage info) (Str (js ''No Message'')))
                       (logFileUrl info)),
                Suc n, tr @ [status_query getAuthorizingArgs_u u opts])
        \<and> (statusCode info = Num c \<and> c \<noteq> 0 \<longrightarrow>
             js_or (statusCode info) (Str (js ''No Code'')) = Num c)
        \<and> (statusMessage info = Str m \<longrightarrow>
             js_or (statusMessage info) (Str (js ''No Message'')) = Str m))
     \<and> (status info \<noteq> Str (js ''in progress'') \<and> status info \<noteq> Str (js ''success'')
          \<and> status info \<noteq> Str (js ''invalid'') \<longrightarrow>
        waitForNotarize script u opts n tr =
          Some (Inl (UnrecognizedStatus (status info)), Suc n,
                tr @ [status_query getAuthorizingArgs u opts])
        \<and> waitForNotarize_u script u opts n tr =
          Some (Inl (UnrecognizedStatus (status info)), Suc n,
                tr @ [status_query getAuthorizingArgs_u u opts]))
     \<and> (status info = Str (js ''in progress'')
          \<and> waitForNotarize script u opts (Suc n)
               (tr @ [status_query getAuthorizingArgs u opts, Delay 30000]) = Some (Inl e, w) \<longrightarrow>
        waitForNotarize script u opts n tr = Some (Inl e, w))"
proof (intro impI conjI; (elim conjE)?)
  assume out: "script n = Inr out" and info: "info = parseNotarizationInfo out"
  {
    assume inv: "status info = Str (js ''invalid'')"
    then have np: "status (parseNotarizationInfo out) \<noteq> Str (js ''in progress'')"
      using info by simp
    have fin: "final_checks (parseNotarizationInfo out) =
       Inl (NotarizationRejected
              (js_or (statusCode info) (Str (js ''No Code'')))
              (js_or (statusMessage info) (Str (js ''No Message'')))
              (logFileUrl info))"
      using inv info by (simp add: final_checks_def)
    show "waitForNotarize script u opts n tr =
          Some (Inl (NotarizationRejected
                       (js_or (statusCode info) (Str (js ''No Code'')))
                       (js_or (statusMessage info) (Str (js ''No Message'')))
                       (logFileUrl info)),
                Suc n, tr @ [status_query getAuthorizingArgs u opts])"
      using waitForNotarize_final [of script n out u opts tr, OF out np] fin by simp
    show "waitForNotarize_u script u opts n tr =
          Some (Inl (NotarizationRejected
                       (js_or (statusCode info) (Str (js ''No Code'')))
                       (js_or (statusMessage info) (Str (js ''No Message'')))
                       (logFileUrl info)),
                Suc n, tr @ [status_query getAuthorizingArgs_u u opts])"
      using waitForNotarize_u_final [of script n out u opts tr, OF out np] fin by simp
  }
  {
    assume "statusCode info = Num c" "c \<noteq> 0"
    then show "js_or (statusCode info) (Str (js ''No Code'')) = Num c"
      by (simp add: js_or_def)
  }
  {
    assume m: "statusMessage info = Str m"
    then have "m \<noteq> []"
      using statusMessage_nonempty [of out m] info by simp
    with m show "js_or (statusMessage info) (Str (js ''No Message'')) = Str m"
      by (simp add: js_or_def)
  }
  {
    assume a: "status info \<noteq> Str (js ''in progress'')" "status info \<noteq> Str (js ''success'')"
      "status info \<noteq> Str (js ''invalid'')"
    then have np: "status (parseNotarizationInfo out) \<noteq> Str (js ''in progress'')"
      using info by simp
    have fin: "final_checks (parseNotarizationInfo out) = Inl (UnrecognizedStatus (status info))"
      using a info by (simp add: final_checks_def)
    show "waitForNotarize script u opts n tr =
          Some (Inl (UnrecognizedStatus (status info)), Suc n,
                tr @ [status_query getAuthorizingArgs u opts])"
      using waitForNotarize_final [of script n out u opts tr, OF out np] fin by simp
    show "waitForNotarize_u script u opts n tr =
          Some (Inl (UnrecognizedStatus (status info)), Suc n,
                tr @ [status_query getAuthorizingArgs_u u opts])"
      using waitForNotarize_u_final [of script n out u opts tr, OF out np] fin by simp
  }
  {
    assume p: "status info = Str (js ''in progress'')"
      and inner: "waitForNotarize script u opts (Suc n)
               (tr @ [status_query getAuthorizingArgs u opts, Delay 30000]) = Some (Inl e, w)"
    from p info have p': "status (parseNotarizationInfo out) = Str (js ''in progress'')" by simp
    show "waitForNotarize script u opts n tr = Some (Inl e, w)"
      using waitForNotarize_in_progress [of script n out u opts tr, OF out p'] inner by simp
  }
qed

theorem rejected_or_unrecognized_witness:
  "waitForNotarize (\<lambda>n. Inr text_invalid) (js ''u-1'') opts_apple_id 0 [] =
     Some (Inl (NotarizationRejected (Num 2) (Str (js ''Package Invalid''))
                  (Str (js ''https://x/log''))),
           1, [status_query getAuthorizingArgs (js ''u-1'') opts_apple_id])
   \<and> waitForNotarize_u (\<lambda>n. Inr text_invalid) (js ''u-1'') opts_apple_id 0 [] =
     Some (Inl (NotarizationRejected (Num 2) (Str (js ''Package Invalid''))
                  (Str (js ''https://x/log''))),
           1, [status_query getAuthorizingArgs_u (js ''u-1'') opts_apple_id])"
proof -
  have d2: "decimal 2 = js ''2''"
    by (subst decimal.simps) (simp add: js_def)
  have f: "field_value ''RequestUUID: '' text_invalid = None"
    "field_value ''Date: '' text_invalid = None"
    "field_value ''Status: '' text_invalid = Some (js ''invalid'')"
    "field_value ''LogFileURL: '' text_invalid = Some (js ''https://x/log'')"
    "field_value ''Status Code: '' text_invalid = Some (decimal 2)"
    "field_value ''Status Message: '' text_invalid = Some (js ''Package Invalid'')"
    unfolding d2 by (simp_all add: text_invalid_def field_eval)
  have p: "parseInt10 (decimal 2) = Num 2"
    using parseInt10_unsigned [of "[]" 2] by (simp add: number_of_int_def)
  have n: "js ''https://x/log'' \<noteq> js ''(null)''" by (simp add: js_def)
  have info: "parseNotarizationInfo text_invalid =
     \<lparr>uuid = Undefined, date = Undefined, status = Str (js ''invalid''),
      logFileUrl = Str (js ''https://x/log''),
      statusCode = Num 2, statusMessage = Str (js ''Package Invalid'')\<rparr>"
    by (simp add: parseNotarizationInfo_fields f p n)
  show ?thesis
    using rejected_or_unrecognized [of "\<lambda>n. Inr text_invalid" 0 text_invalid
        "parseNotarizationInfo text_invalid" "js ''u-1''" opts_apple_id "[]" 2
        "js ''Package Invalid''" "ExecaError []" "(0, [])"]
    by (simp add: info)
qed

text \<open>
  Without a status code that is a number, without a message and without a log URL, the
  error has the two placeholders of the template and \<open>undefined\<close>.
\<close>

lemma rejection_placeholders:
  "final_checks (parseNotarizationInfo text_code_abc) =
     Inl (NotarizationRejected (Str (js ''No Code'')) (Str (js ''No Message'')) Undefined)"
proof -
  have f: "field_value ''RequestUUID: '' text_code_abc = None"
    "field_value ''Date: '' text_code_abc = None"
    "field_value ''Status: '' text_code_abc = Some (js ''invalid'')"
    "field_value ''LogFileURL: '' text_code_abc = None"
    "field_value ''Status Code: '' text_code_abc = Some (js ''abc'')"
    "field_value ''Status Message: '' text_code_abc = None"
    by (simp_all add: text_code_abc_def field_eval)
  have p: "parseInt10 (js ''abc'') = NaN"
    by (rule parseInt10_no_digit) (simp add: js_def is_digit_def)
  have info: "parseNotarizationInfo text_code_abc =
     \<lparr>uuid = Undefined, date = Undefined, status = Str (js ''invalid''), logFileUrl = Undefined,
      statusCode = NaN, statusMessage = Undefined\<rparr>"
    by (simp add: parseNotarizationInfo_fields f p)
  show ?thesis
    unfolding info by (simp add: final_checks_def js_or_def)
qed

end
